theory Spec2Isabelle
  imports Complex_Main
begin

section \<open>Values\<close>

text \<open>
  A Python/NumPy float is either NaN or a number. The numbers are idealised as reals:
  rounding and the infinities are not modelled. NaN is kept, because NumPy and pandas
  use it for a missing value and the notebook calls \<^verbatim>\<open>np.nanmedian\<close>.
\<close>

datatype pyfloat = NaN | Fin real

datatype py_error =
  KeyError | ValueError | ZeroDivisionError | FileNotFoundError | InvalidIndexError
  | LibraryError

text \<open>Comparison of a float with a Python int: a comparison with NaN is False.\<close>

fun float_gt :: "pyfloat \<Rightarrow> int \<Rightarrow> bool" where
  "float_gt NaN b = False"
| "float_gt (Fin a) b = (a > real_of_int b)"

fun float_lt :: "pyfloat \<Rightarrow> int \<Rightarrow> bool" where
  "float_lt NaN b = False"
| "float_lt (Fin a) b = (a < real_of_int b)"

fun float_add :: "pyfloat \<Rightarrow> pyfloat \<Rightarrow> pyfloat" where
  "float_add (Fin a) (Fin b) = Fin (a + b)"
| "float_add _ _ = NaN"

text \<open>Division of a sum by the number of its terms; \<^verbatim>\<open>0 / 0\<close> is NaN in NumPy.\<close>

fun float_div_count :: "pyfloat \<Rightarrow> nat \<Rightarrow> pyfloat" where
  "float_div_count (Fin a) n = (if n = 0 then NaN else Fin (a / real n))"
| "float_div_count NaN n = NaN"

text \<open>\<^verbatim>\<open>np.mean\<close> of a one-dimensional array: the sum divided by the count. NaN
  propagates, and the mean of no value is NaN.\<close>

definition np_mean :: "pyfloat list \<Rightarrow> pyfloat" where
  "np_mean xs = float_div_count (foldl float_add (Fin 0) xs) (length xs)"

text \<open>The values of an array that are not NaN, in order.\<close>

fun finite_values :: "pyfloat list \<Rightarrow> real list" where
  "finite_values [] = []"
| "finite_values (NaN # xs) = finite_values xs"
| "finite_values (Fin a # xs) = a # finite_values xs"

text \<open>The median of a non-empty list of reals: the middle element of the sorted list,
  or the mean of the two middle elements when the length is even.\<close>

definition median :: "real list \<Rightarrow> real" where
  "median xs =
     (let ys = sort xs; n = length ys
      in if odd n then ys ! (n div 2) else (ys ! (n div 2 - 1) + ys ! (n div 2)) / 2)"

text \<open>\<^verbatim>\<open>np.nanmedian\<close>: the median of the values that are not NaN; NaN when there
  is none.\<close>

definition nanmedian :: "pyfloat list \<Rightarrow> pyfloat" where
  "nanmedian xs =
     (let ys = finite_values xs in if ys = [] then NaN else Fin (median ys))"

text \<open>True division \<^verbatim>\<open>a / b\<close> of two Python ints.\<close>

definition int_truediv :: "int \<Rightarrow> int \<Rightarrow> py_error + real" where
  "int_truediv a b = (if b = 0 then Inl ZeroDivisionError else Inr (real_of_int a / real_of_int b))"

subsection \<open>Strings of numbers\<close>

text \<open>\<^verbatim>\<open>str\<close> of a Python int and of a pair of ints: \<^verbatim>\<open>str((7, 12)) == '(7, 12)'\<close>.\<close>

definition digit_char :: "nat \<Rightarrow> char" where
  "digit_char n = ''0123456789'' ! (n mod 10)"

fun str_nat :: "nat \<Rightarrow> string" where
  "str_nat n = (if n < 10 then [digit_char n] else str_nat (n div 10) @ [digit_char n])"

definition str_int :: "int \<Rightarrow> string" where
  "str_int i = (if i < 0 then ''-'' @ str_nat (nat (- i)) else str_nat (nat i))"

definition str_tuple :: "int \<times> int \<Rightarrow> string" where
  "str_tuple t = ''('' @ str_int (fst t) @ '', '' @ str_int (snd t) @ '')''"

subsection \<open>Dictionaries\<close>

text \<open>A Python dict keeps its keys in insertion order, and \<^verbatim>\<open>pd.DataFrame\<close> takes the
  column order from it: an association list, one entry per key.\<close>

type_synonym 'v dict = "(string \<times> 'v) list"

definition dict_contains :: "'v dict \<Rightarrow> string \<Rightarrow> bool" where
  "dict_contains d k = (map_of d k \<noteq> None)"

text \<open>\<^verbatim>\<open>d[k] = v\<close>: replaces the value of a key in place, a new key goes last.\<close>

fun dict_set :: "'v dict \<Rightarrow> string \<Rightarrow> 'v \<Rightarrow> 'v dict" where
  "dict_set [] k v = [(k, v)]"
| "dict_set ((k', v') # d) k v =
     (if k' = k then (k, v) # d else (k', v') # dict_set d k v)"

text \<open>\<^verbatim>\<open>if k not in d: d[k] = []\<close>\<close>

definition dict_setdefault_list :: "'a list dict \<Rightarrow> string \<Rightarrow> 'a list dict" where
  "dict_setdefault_list d k = (if \<not> dict_contains d k then dict_set d k [] else d)"

text \<open>\<^verbatim>\<open>d[k].append(x)\<close>: a KeyError when the key is missing.\<close>

definition dict_append :: "'a list dict \<Rightarrow> string \<Rightarrow> 'a \<Rightarrow> py_error + 'a list dict" where
  "dict_append d k x =
     (case map_of d k of
        None \<Rightarrow> Inl KeyError
      | Some xs \<Rightarrow> Inr (dict_set d k (xs @ [x])))"

subsection \<open>Loops\<close>

text \<open>\<^verbatim>\<open>for x in xs: body\<close> on a state. An exception raised by the body ends the loop
  and the run with it: nothing below handles one, and the result is the exception.\<close>

fun for_each :: "'a list \<Rightarrow> ('a \<Rightarrow> 's \<Rightarrow> py_error + 's) \<Rightarrow> 's \<Rightarrow> py_error + 's" where
  "for_each [] body s = Inr s"
| "for_each (x # xs) body s =
     (case body x s of Inl e \<Rightarrow> Inl e | Inr s' \<Rightarrow> for_each xs body s')"

definition py_range :: "nat \<Rightarrow> int list" where
  "py_range n = map int [0..<n]"

section \<open>Tables\<close>

subsection \<open>Feature tables\<close>

text \<open>
  A pandas DataFrame of floats: the row labels (the index) and the columns in order,
  each a name and one value per row. \<^verbatim>\<open>len(df)\<close> is the number of row labels.
\<close>

record dataframe =
  df_index :: "int list"
  df_columns :: "(string \<times> pyfloat list) list"

definition df_len :: "dataframe \<Rightarrow> nat" where
  "df_len df = length (df_index df)"

definition df_names :: "dataframe \<Rightarrow> string list" where
  "df_names df = map fst (df_columns df)"

text \<open>Library behaviour (pandas), \<^verbatim>\<open>pd.DataFrame(d)\<close> for a dict of lists: the columns
  are the dict's items in order, the index is \<^verbatim>\<open>0..n-1\<close>; lists of different lengths
  raise a ValueError; an empty dict gives a table with no row and no column.\<close>

definition DataFrame :: "pyfloat list dict \<Rightarrow> py_error + dataframe" where
  "DataFrame d =
     (case d of
        [] \<Rightarrow> Inr \<lparr>df_index = [], df_columns = []\<rparr>
      | (k, v) # rest \<Rightarrow>
          if list_all (\<lambda>kv. length (snd kv) = length v) rest
          then Inr \<lparr>df_index = py_range (length v), df_columns = d\<rparr>
          else Inl ValueError)"

text \<open>The position of the first occurrence of a label in an index.\<close>

fun first_pos :: "int \<Rightarrow> int list \<Rightarrow> nat option" where
  "first_pos l [] = None"
| "first_pos l (x # xs) =
     (if x = l then Some 0 else (case first_pos l xs of None \<Rightarrow> None | Some p \<Rightarrow> Some (Suc p)))"

text \<open>The labels of an index, each once, in the order of first appearance.\<close>

fun union_labels :: "int list \<Rightarrow> int list \<Rightarrow> int list" where
  "union_labels acc [] = acc"
| "union_labels acc (l # ls) =
     (if l \<in> set acc then union_labels acc ls else union_labels (acc @ [l]) ls)"

text \<open>
  Library behaviour (pandas), \<^verbatim>\<open>a.union(b, sort=False)\<close> of two indexes, which is how
  \<^verbatim>\<open>pd.concat\<close> joins the indexes of its tables: \<open>a\<close> as it is when \<open>b\<close> is empty or
  equal to it, \<open>b\<close> as it is when \<open>a\<close> is empty; otherwise, when no label is repeated in
  \<open>b\<close>, the labels of \<open>a\<close> as they are, repeated ones too, followed by the labels of \<open>b\<close>
  that \<open>a\<close> lacks; and when a label is repeated in \<open>b\<close>, every label as often as in the
  index that has it most often, the labels in the order of first appearance.
\<close>

definition index_union :: "int list \<Rightarrow> int list \<Rightarrow> int list" where
  "index_union a b =
     (if b = [] \<or> a = b then a
      else if a = [] then b
      else if distinct b then a @ filter (\<lambda>l. l \<notin> set a) b
      else concat (map (\<lambda>l. replicate (max (count_list a l) (count_list b l)) l)
                       (union_labels [] (a @ b))))"

text \<open>A column moved to a new index: the value its table has at the label, NaN for a label
  its table does not have.\<close>

definition reindex_column :: "int list \<Rightarrow> int list \<Rightarrow> pyfloat list \<Rightarrow> pyfloat list" where
  "reindex_column old new vals =
     map (\<lambda>l. case first_pos l old of
                 None \<Rightarrow> NaN
               | Some p \<Rightarrow> if p < length vals then vals ! p else NaN) new"

text \<open>The columns of a table on the index of the result: as they are when the table
  carries that index, moved to it otherwise.\<close>

definition reindex :: "int list \<Rightarrow> dataframe \<Rightarrow> (string \<times> pyfloat list) list" where
  "reindex new df =
     (if df_index df = new then df_columns df
      else map (\<lambda>kv. (fst kv, reindex_column (df_index df) new (snd kv))) (df_columns df))"

text \<open>
  Library behaviour (pandas), \<^verbatim>\<open>pd.concat(dfs, axis=1)\<close> with the default outer join:
  the columns of the tables side by side, in order, names repeated if the tables repeat
  them; the rows aligned on the row labels. When all tables carry the same index, the
  result carries it and row \<open>r\<close> is the rows \<open>r\<close> side by side. Otherwise the result's
  index is the union of the indexes, taken from left to right; a table that carries the
  result's index is taken as it is, and any other table is moved to it, with NaN at the
  labels it lacks. Moving a table with a repeated label raises InvalidIndexError; a
  table with a repeated label that needs no move raises nothing (a saved table with the
  labels 0, 0 and a computed table with the label 0 give a table of two rows). The
  order of the labels is that of the library without sorting; nothing below depends on
  it. No table at all raises a ValueError.
\<close>

definition pd_concat_axis1 :: "dataframe list \<Rightarrow> py_error + dataframe" where
  "pd_concat_axis1 dfs =
     (case dfs of
        [] \<Rightarrow> Inl ValueError
      | df0 # rest \<Rightarrow>
          if list_all (\<lambda>df. df_index df = df_index df0) rest
          then Inr \<lparr>df_index = df_index df0, df_columns = concat (map df_columns dfs)\<rparr>
          else
            let new = foldl index_union (df_index df0) (map df_index rest)
            in if list_all (\<lambda>df. df_index df = new \<or> distinct (df_index df)) dfs
               then Inr \<lparr>df_index = new, df_columns = concat (map (reindex new) dfs)\<rparr>
               else Inl InvalidIndexError)"

subsection \<open>The epoch table\<close>

text \<open>A channel's time series for one trial.\<close>

type_synonym signal = "pyfloat list"

text \<open>
  The epoch table \<^verbatim>\<open>eeg_epoch_full_df\<close> is a DataFrame whose cells hold arrays. The
  notebook reads it in two ways only, and the model is what these two return:
  \<^verbatim>\<open>len(eeg_epoch_full_df)\<close>, and \<^verbatim>\<open>eeg_epoch_full_df[ch][i]\<close>, which is the series
  of trial \<open>i\<close> on channel \<open>ch\<close> or raises (a KeyError for a missing column or label).
\<close>

record epoch_table =
  n_rows :: nat
  getitem :: "string \<Rightarrow> int \<Rightarrow> py_error + signal"

section \<open>Library collaborators\<close>

text \<open>
  The routines of neurodsp and FOOOF are not part of the repository. They are
  parameters of the model, each a function that returns its result or raises.
  \<^item> \<^verbatim>\<open>compute_spectrum(sig, fs, method=, avg_type=, nperseg=)\<close> returns the
    frequencies and the powers;
  \<^item> \<^verbatim>\<open>amp_by_time(sig, fs, f_range)\<close> returns the amplitude envelope, NaN where the
    filter has no value;
  \<^item> \<^verbatim>\<open>fm.add_data(freq, psd, freq_range); fm.fit(); fm.peak_params_\<close> on a model
    object with the given settings returns the fitted peaks: \<^verbatim>\<open>add_data\<close> clears what
    an earlier fit left in the object, so the peaks depend on the settings and the data
    only.
  The library routines are taken to leave their arguments as they are.
\<close>

datatype spectrum_method = Welch | Wavelet | Medfilt

datatype avg_type = Avg_mean | Avg_median

record fooof_settings =
  peak_width_limits :: "int \<times> int"
  max_n_peaks :: int
  min_peak_height :: real

type_synonym peak = "pyfloat \<times> pyfloat \<times> pyfloat"

record lib =
  compute_spectrum ::
    "signal \<Rightarrow> int \<Rightarrow> spectrum_method \<Rightarrow> avg_type \<Rightarrow> int
       \<Rightarrow> py_error + (pyfloat list \<times> pyfloat list)"
  amp_by_time :: "signal \<Rightarrow> int \<Rightarrow> int \<times> int \<Rightarrow> py_error + pyfloat list"
  fooof_fit ::
    "fooof_settings \<Rightarrow> pyfloat list \<Rightarrow> pyfloat list \<Rightarrow> int \<times> int \<Rightarrow> py_error + peak list"

subsection \<open>The Welch estimate\<close>







section \<open>Constants of the notebook\<close>

definition eeg_fs :: int where
  "eeg_fs = 250"

definition eeg_chans :: "string list" where
  "eeg_chans = [''C3'', ''Cz'', ''C4'']"

definition alpha_range :: "int \<times> int" where
  "alpha_range = (7, 12)"

definition freq_range :: "int \<times> int" where
  "freq_range = (1, 40)"

text \<open>\<^verbatim>\<open>fm = FOOOF(peak_width_limits=[1, 8], max_n_peaks=6, min_peak_height=0.4)\<close>\<close>

definition fm :: fooof_settings where
  "fm = \<lparr>peak_width_limits = (1, 8), max_n_peaks = 6, min_peak_height = 4 / 10\<rparr>"

section \<open>The helper\<close>

text \<open>
  \<^verbatim>\<open>
  def getMeanFreqPSD(eeg_data, fs=eeg_fs):
      freq_mean, psd_mean = compute_spectrum(eeg_data, fs, method='welch',
                                             avg_type='mean', nperseg=fs*2)
      return freq_mean, psd_mean
  \<close>
\<close>

definition getMeanFreqPSD ::
  "lib \<Rightarrow> signal \<Rightarrow> int \<Rightarrow> py_error + (pyfloat list \<times> pyfloat list)" where
  "getMeanFreqPSD L eeg_data fs =
     (case compute_spectrum L eeg_data fs Welch Avg_mean (fs * 2) of
        Inl e \<Rightarrow> Inl e
      | Inr (freq_mean, psd_mean) \<Rightarrow> Inr (freq_mean, psd_mean))"

section \<open>The notebook's variables\<close>

text \<open>The variables the cells below assign or read. The loop variables and the
  temporaries of a loop body are local to the model of the body.\<close>

record notebook =
  eeg_epoch_full_df :: epoch_table
  W1_feature_df :: dataframe
  alpha_amps :: "pyfloat list dict"
  alpha_med_df :: dataframe
  feature_df :: dataframe
  num_with_alpha :: int
  num_without_alpha :: int
  fooof_parameters :: "pyfloat list dict"
  fooof_parameters_df :: dataframe

section \<open>Alpha instantaneous amplitude median\<close>

definition alpha_key :: "string \<Rightarrow> string" where
  "alpha_key ch = ch @ ''_'' @ str_tuple alpha_range @ ''_inst_med''"

text \<open>
  \<^verbatim>\<open>
  amp = amp_by_time(eeg_epoch_full_df[ch][i][:], eeg_fs, alpha_range)
  key = ch + "_" + str(alpha_range) + "_inst_med"
  if key not in alpha_amps:
      alpha_amps[key] = list()
  alpha_amps[key].append(np.nanmedian(amp))
  \<close>
  The slice \<^verbatim>\<open>[:]\<close> of the series has the values of the series.
\<close>

definition alpha_body :: "lib \<Rightarrow> int \<Rightarrow> string \<Rightarrow> notebook \<Rightarrow> py_error + notebook" where
  "alpha_body L i ch s =
     (case getitem (eeg_epoch_full_df s) ch i of
        Inl e \<Rightarrow> Inl e
      | Inr sig \<Rightarrow>
         (case amp_by_time L sig eeg_fs alpha_range of
            Inl e \<Rightarrow> Inl e
          | Inr amp \<Rightarrow>
             let key = alpha_key ch;
                 d = dict_setdefault_list (alpha_amps s) key
             in (case dict_append d key (nanmedian amp) of
                   Inl e \<Rightarrow> Inl e
                 | Inr d' \<Rightarrow> Inr (s\<lparr>alpha_amps := d'\<rparr>))))"

text \<open>
  \<^verbatim>\<open>
  alpha_amps = {}
  for i in range(0, len(eeg_epoch_full_df)):
      for ch in eeg_chans:
          ...
  \<close>
\<close>

definition alpha_amps_loop :: "lib \<Rightarrow> notebook \<Rightarrow> py_error + notebook" where
  "alpha_amps_loop L s =
     for_each (py_range (n_rows (eeg_epoch_full_df s)))
       (\<lambda>i. for_each eeg_chans (\<lambda>ch. alpha_body L i ch))
       (s\<lparr>alpha_amps := []\<rparr>)"

text \<open>
  \<^verbatim>\<open>
  alpha_med_df = pd.DataFrame(alpha_amps)
  feature_df = pd.concat([W1_feature_df, alpha_med_df], axis=1)
  \<close>
\<close>

definition alpha_cell :: "lib \<Rightarrow> notebook \<Rightarrow> py_error + notebook" where
  "alpha_cell L s =
     (case alpha_amps_loop L s of
        Inl e \<Rightarrow> Inl e
      | Inr s1 \<Rightarrow>
         (case DataFrame (alpha_amps s1) of
            Inl e \<Rightarrow> Inl e
          | Inr df \<Rightarrow>
             (case pd_concat_axis1 [W1_feature_df s1, df] of
                Inl e \<Rightarrow> Inl e
              | Inr f \<Rightarrow> Inr (s1\<lparr>alpha_med_df := df, feature_df := f\<rparr>))))"

section \<open>Peak parameters\<close>

definition CF :: "peak \<Rightarrow> pyfloat" where
  "CF param = fst param"

definition PW :: "peak \<Rightarrow> pyfloat" where
  "PW param = fst (snd param)"

definition BW :: "peak \<Rightarrow> pyfloat" where
  "BW param = snd (snd param)"

text \<open>
  \<^verbatim>\<open>
  peak_params_alpha = []
  for param in peak_params:
      if (param[0] > alpha_range[0]) and (param[0] < alpha_range[1]):
          peak_params_alpha.append(param)
  \<close>
  The loop, with the list built so far as its second argument.
\<close>

fun select_alpha_loop :: "peak list \<Rightarrow> peak list \<Rightarrow> peak list" where
  "select_alpha_loop [] peak_params_alpha = peak_params_alpha"
| "select_alpha_loop (param # rest) peak_params_alpha =
     (if float_gt (CF param) (fst alpha_range) \<and> float_lt (CF param) (snd alpha_range)
      then select_alpha_loop rest (peak_params_alpha @ [param])
      else select_alpha_loop rest peak_params_alpha)"

definition select_alpha :: "peak list \<Rightarrow> peak list" where
  "select_alpha peak_params = select_alpha_loop peak_params []"

text \<open>\<^verbatim>\<open>np.mean(peak_params_alpha, axis=0)\<close>: the mean of each of the three columns.\<close>

definition np_mean_axis0 :: "peak list \<Rightarrow> peak" where
  "np_mean_axis0 ps = (np_mean (map CF ps), np_mean (map PW ps), np_mean (map BW ps))"

text \<open>
  \<^verbatim>\<open>
  means = []
  if len(peak_params_alpha) > 0:
      num_with_alpha += 1
      means = np.mean(peak_params_alpha, axis=0)
  else :
      num_without_alpha += 1
      means = [0, 0, 0]
  \<close>
  The two counters go in and come out with the triple.
\<close>

definition alpha_means :: "peak list \<Rightarrow> int \<Rightarrow> int \<Rightarrow> int \<times> int \<times> peak" where
  "alpha_means peak_params_alpha n_with n_without =
     (if length peak_params_alpha > 0
      then (n_with + 1, n_without, np_mean_axis0 peak_params_alpha)
      else (n_with, n_without + 1, (Fin 0, Fin 0, Fin 0)))"

definition CF_key :: "string \<Rightarrow> string" where
  "CF_key ch = ch @ ''_alpha_central_freq''"

definition PW_key :: "string \<Rightarrow> string" where
  "PW_key ch = ch @ ''_alpha_power''"

definition BW_key :: "string \<Rightarrow> string" where
  "BW_key ch = ch @ ''_alpha_band_width''"

text \<open>
  The peaks fitted for one trial and channel:
  \<^verbatim>\<open>
  sig = eeg_epoch_full_df[ch][i]
  freq, psd = getMeanFreqPSD(sig)
  fm.add_data(freq, psd, freq_range)
  fm.fit()
  peak_params = fm.peak_params_
  \<close>
\<close>

definition fitted_peaks :: "lib \<Rightarrow> epoch_table \<Rightarrow> int \<Rightarrow> string \<Rightarrow> py_error + peak list" where
  "fitted_peaks L df i ch =
     (case getitem df ch i of
        Inl e \<Rightarrow> Inl e
      | Inr sig \<Rightarrow>
         (case getMeanFreqPSD L sig eeg_fs of
            Inl e \<Rightarrow> Inl e
          | Inr (freq, psd) \<Rightarrow> fooof_fit L fm freq psd freq_range))"

text \<open>The body of the inner loop (lines 320 to 357 of the notebook): the three keys are
  made sure of first, then the fit, the selection, the counters and the three appends.\<close>

definition fooof_body :: "lib \<Rightarrow> int \<Rightarrow> string \<Rightarrow> notebook \<Rightarrow> py_error + notebook" where
  "fooof_body L i ch s =
     (let d0 = fooof_parameters s;
          d1 = dict_setdefault_list d0 (CF_key ch);
          d2 = dict_setdefault_list d1 (PW_key ch);
          d3 = dict_setdefault_list d2 (BW_key ch)
      in case fitted_peaks L (eeg_epoch_full_df s) i ch of
           Inl e \<Rightarrow> Inl e
         | Inr peak_params \<Rightarrow>
            (case alpha_means (select_alpha peak_params)
                    (num_with_alpha s) (num_without_alpha s) of
               (n_with, n_without, means) \<Rightarrow>
                 (case dict_append d3 (CF_key ch) (CF means) of
                    Inl e \<Rightarrow> Inl e
                  | Inr d4 \<Rightarrow>
                     (case dict_append d4 (PW_key ch) (PW means) of
                        Inl e \<Rightarrow> Inl e
                      | Inr d5 \<Rightarrow>
                         (case dict_append d5 (BW_key ch) (BW means) of
                            Inl e \<Rightarrow> Inl e
                          | Inr d6 \<Rightarrow>
                             Inr (s\<lparr>num_with_alpha := n_with,
                                     num_without_alpha := n_without,
                                     fooof_parameters := d6\<rparr>))))))"

text \<open>
  \<^verbatim>\<open>
  num_with_alpha = 0
  num_without_alpha = 0
  fooof_parameters = {}
  for i in range(len(eeg_epoch_full_df)):
      for ch in eeg_chans:
          ...
  \<close>
  The progress line printed every hundredth trial has no effect on the variables.
\<close>

definition fooof_from :: "lib \<Rightarrow> nat \<Rightarrow> notebook \<Rightarrow> py_error + notebook" where
  "fooof_from L n s =
     for_each (py_range n) (\<lambda>i. for_each eeg_chans (\<lambda>ch. fooof_body L i ch)) s"

definition fooof_cell :: "lib \<Rightarrow> notebook \<Rightarrow> py_error + notebook" where
  "fooof_cell L s =
     fooof_from L (n_rows (eeg_epoch_full_df s))
       (s\<lparr>num_with_alpha := 0, num_without_alpha := 0, fooof_parameters := []\<rparr>)"

section \<open>Feature table assembly\<close>

text \<open>\<^verbatim>\<open>num_with_alpha / (num_with_alpha + num_without_alpha)\<close>, the fraction the cell
  prints.\<close>

definition pct_with_alpha :: "notebook \<Rightarrow> py_error + real" where
  "pct_with_alpha s =
     int_truediv (num_with_alpha s) (num_with_alpha s + num_without_alpha s)"

text \<open>
  \<^verbatim>\<open>
  fooof_parameters_df = pd.DataFrame(fooof_parameters)
  feature_df = pd.concat([W1_feature_df, alpha_med_df, fooof_parameters_df], axis=1)
  print("% with alpha:", num_with_alpha / (num_with_alpha + num_without_alpha))
  \<close>
\<close>

definition assemble_cell :: "notebook \<Rightarrow> py_error + notebook" where
  "assemble_cell s =
     (case DataFrame (fooof_parameters s) of
        Inl e \<Rightarrow> Inl e
      | Inr df \<Rightarrow>
         (case pd_concat_axis1 [W1_feature_df s, alpha_med_df s, df] of
            Inl e \<Rightarrow> Inl e
          | Inr f \<Rightarrow>
             (let s' = s\<lparr>fooof_parameters_df := df, feature_df := f\<rparr>
              in case pct_with_alpha s' of
                   Inl e \<Rightarrow> Inl e
                 | Inr pct \<Rightarrow> Inr s')))"

section \<open>The feature-extraction cells in sequence\<close>

definition extract_features :: "lib \<Rightarrow> notebook \<Rightarrow> py_error + notebook" where
  "extract_features L s =
     (case alpha_cell L s of
        Inl e \<Rightarrow> Inl e
      | Inr s1 \<Rightarrow>
         (case fooof_cell L s1 of
            Inl e \<Rightarrow> Inl e
          | Inr s2 \<Rightarrow> assemble_cell s2))"

section \<open>Notions the properties are stated with\<close>

text \<open>\<^verbatim>\<open>d.get(k, [])\<close>: the list under a key, empty for a missing key.\<close>

definition dict_get :: "'a list dict \<Rightarrow> string \<Rightarrow> 'a list" where
  "dict_get d k = (case map_of d k of None \<Rightarrow> [] | Some xs \<Rightarrow> xs)"

text \<open>The keys of a dict after a key is made sure of.\<close>

definition add_key :: "string list \<Rightarrow> string \<Rightarrow> string list" where
  "add_key ks k = (if k \<in> set ks then ks else ks @ [k])"

definition add_keys3 :: "string list \<Rightarrow> string \<Rightarrow> string list" where
  "add_keys3 ks ch = add_key (add_key (add_key ks (CF_key ch)) (PW_key ch)) (BW_key ch)"

text \<open>The keys of \<^verbatim>\<open>fooof_parameters\<close> in the order the loop makes them.\<close>

definition fooof_keys :: "string list" where
  "fooof_keys = concat (map (\<lambda>ch. [CF_key ch, PW_key ch, BW_key ch]) eeg_chans)"

text \<open>The names of the columns the two loops make: those of \<^verbatim>\<open>alpha_amps\<close>, then
  those of \<^verbatim>\<open>fooof_parameters\<close>.\<close>

definition new_feature_names :: "string list" where
  "new_feature_names = map alpha_key eeg_chans @ fooof_keys"

text \<open>The triple \<^verbatim>\<open>means\<close> of a pair whose fit returned \<open>peak_params\<close>; the counters
  have no part in it.\<close>

definition alpha_triple :: "peak list \<Rightarrow> peak" where
  "alpha_triple peak_params = snd (snd (alpha_means (select_alpha peak_params) 0 0))"

text \<open>A center frequency strictly inside the band (7, 12), both endpoints excluded.\<close>

definition in_alpha_band :: "pyfloat \<Rightarrow> bool" where
  "in_alpha_band x = (case x of NaN \<Rightarrow> False | Fin c \<Rightarrow> 7 < c \<and> c < 12)"

text \<open>The arithmetic mean of a non-empty list of floats: the sum of the values divided
  by their number, NaN when one of them is NaN.\<close>

definition arithmetic_mean :: "pyfloat list \<Rightarrow> pyfloat" where
  "arithmetic_mean xs =
     (if NaN \<in> set xs then NaN else Fin (sum_list (finite_values xs) / real (length xs)))"

text \<open>The samples of an envelope that are numbers, in order.\<close>

definition numbers_of :: "pyfloat list \<Rightarrow> real list" where
  "numbers_of vs = concat (map (\<lambda>v. case v of NaN \<Rightarrow> [] | Fin x \<Rightarrow> [x]) vs)"

text \<open>The value of rank \<open>k\<close> in order of size, ranks counted from 0: at most \<open>k\<close> of the
  values are smaller, and more than \<open>k\<close> are not larger.\<close>

definition kth_smallest :: "real list \<Rightarrow> nat \<Rightarrow> real \<Rightarrow> bool" where
  "kth_smallest xs k x =
     (length (filter (\<lambda>y. y < x) xs) \<le> k \<and> k < length (filter (\<lambda>y. y \<le> x) xs))"

text \<open>The median of a list of numbers: the value in the middle in order of size when
  their number is odd, halfway between the two in the middle when it is even. With \<open>n\<close>
  values these are the ranks \<open>(n - 1) div 2\<close> and \<open>n div 2\<close>, the same rank when \<open>n\<close> is
  odd.\<close>

definition is_median :: "real list \<Rightarrow> real \<Rightarrow> bool" where
  "is_median xs m =
     (\<exists>a \<in> set xs. \<exists>b \<in> set xs.
        kth_smallest xs ((length xs - 1) div 2) a
      \<and> kth_smallest xs (length xs div 2) b
      \<and> m = (a + b) / 2)"



section \<open>Example inputs\<close>

text \<open>An epoch table of one trial, with a different series on each EEG channel.\<close>

definition ex_epochs :: epoch_table where
  "ex_epochs =
     \<lparr>n_rows = 1,
      getitem = (\<lambda>ch i.
        if i \<noteq> 0 then Inl KeyError
        else if ch = ''C3'' then Inr [Fin 1, Fin 1]
        else if ch = ''Cz'' then Inr [Fin 2, Fin 2]
        else if ch = ''C4'' then Inr [Fin 3, Fin 3]
        else Inl KeyError)\<rparr>"

text \<open>Stand-ins for the library routines. The estimator answers only the call the helper
  makes at 250 Hz, with frequencies half a hertz apart and one power for each; the
  envelope is NaN at both ends; the fit gives channel C3 two peaks inside the band and
  one outside, channel Cz one peak on each endpoint of the band, channel C4 no peak.\<close>

definition ex_lib :: lib where
  "ex_lib =
     \<lparr>compute_spectrum = (\<lambda>sig fs m a n.
        if fs = 250 \<and> m = Welch \<and> a = Avg_mean \<and> n = 500
        then Inr (map (\<lambda>k. Fin (real k / 2)) [0..<length sig], sig)
        else Inl LibraryError),
      amp_by_time = (\<lambda>sig fs r.
        if fs = 250 \<and> r = (7, 12) then Inr ([NaN] @ sig @ [NaN]) else Inl LibraryError),
      fooof_fit = (\<lambda>st freq psd r.
        if psd = [Fin 1, Fin 1]
        then Inr [(Fin 8, Fin 1, Fin 2), (Fin 20, Fin 5, Fin 5), (Fin 10, Fin 3, Fin 4)]
        else if psd = [Fin 2, Fin 2]
        then Inr [(Fin 7, Fin 1, Fin 1), (Fin 12, Fin 1, Fin 1)]
        else Inr [])\<rparr>"

definition empty_df :: dataframe where
  "empty_df = \<lparr>df_index = [], df_columns = []\<rparr>"

text \<open>The notebook after the two tables are loaded, \<open>W1\<close> the table of the file
  \<^verbatim>\<open>W1_feature_df.pkl\<close>.\<close>

definition ex_notebook :: "dataframe \<Rightarrow> notebook" where
  "ex_notebook W1 =
     \<lparr>eeg_epoch_full_df = ex_epochs, W1_feature_df = W1, alpha_amps = [],
      alpha_med_df = empty_df, feature_df = empty_df, num_with_alpha = 0,
      num_without_alpha = 0, fooof_parameters = [], fooof_parameters_df = empty_df\<rparr>"

text \<open>Three saved tables: one row with the label 0; one row with the label 1; two rows,
  and a column that bears the name of a column the notebook computes.\<close>

definition ex_W1 :: dataframe where
  "ex_W1 = \<lparr>df_index = [0], df_columns = [(''y'', [Fin 1])]\<rparr>"

definition ex_W1_label1 :: dataframe where
  "ex_W1_label1 = \<lparr>df_index = [1], df_columns = [(''y'', [Fin 1])]\<rparr>"

definition ex_W1_clash :: dataframe where
  "ex_W1_clash = \<lparr>df_index = [0, 1], df_columns = [(''C3_alpha_power'', [Fin 1, Fin 0])]\<rparr>"

text \<open>Two saved tables with a repeated row label: the label 0 twice, and the label 5
  twice.\<close>

definition ex_W1_repeated :: dataframe where
  "ex_W1_repeated = \<lparr>df_index = [0, 0], df_columns = [(''y'', [Fin 1, Fin 2])]\<rparr>"

definition ex_W1_repeated_other :: dataframe where
  "ex_W1_repeated_other = \<lparr>df_index = [5, 5], df_columns = [(''y'', [Fin 1, Fin 2])]\<rparr>"

text \<open>The dicts \<^verbatim>\<open>alpha_amps\<close> and \<^verbatim>\<open>fooof_parameters\<close> after the loops on the
  example, and the tables made of them.\<close>

definition ex_alpha_dict :: "pyfloat list dict" where
  "ex_alpha_dict =
     [(''C3_(7, 12)_inst_med'', [Fin 1]), (''Cz_(7, 12)_inst_med'', [Fin 2]),
      (''C4_(7, 12)_inst_med'', [Fin 3])]"

definition ex_fooof_dict :: "pyfloat list dict" where
  "ex_fooof_dict =
          [(''C3_alpha_central_freq'', [Fin 9]),
           (''C3_alpha_power'', [Fin 2]),
           (''C3_alpha_band_width'', [Fin 3]),
           (''Cz_alpha_central_freq'', [Fin 0]),
           (''Cz_alpha_power'', [Fin 0]),
           (''Cz_alpha_band_width'', [Fin 0]),
           (''C4_alpha_central_freq'', [Fin 0]),
           (''C4_alpha_power'', [Fin 0]),
           (''C4_alpha_band_width'', [Fin 0])]"

definition ex_alpha_med_df :: dataframe where
  "ex_alpha_med_df = \<lparr>df_index = [0], df_columns = ex_alpha_dict\<rparr>"

definition ex_fooof_df :: dataframe where
  "ex_fooof_df = \<lparr>df_index = [0], df_columns = ex_fooof_dict\<rparr>"

text \<open>The notebook of the example before the assembling cell runs.\<close>

definition ex_before_assemble :: notebook where
  "ex_before_assemble =
     \<lparr>eeg_epoch_full_df = ex_epochs, W1_feature_df = ex_W1, alpha_amps = ex_alpha_dict,
          alpha_med_df = ex_alpha_med_df,
          feature_df = \<lparr>df_index = [0], df_columns = (''y'', [Fin 1]) # ex_alpha_dict\<rparr>,
          num_with_alpha = 1, num_without_alpha = 2, fooof_parameters = ex_fooof_dict,
          fooof_parameters_df = empty_df\<rparr>"

text \<open>
  A second epoch table of one trial and a second envelope routine, for the amplitude
  feature. The envelope has the length of the series, NaN at both ends and the samples of
  the series between them: three numbers on C3, four on Cz, none on C4.
\<close>

definition ex_amp_epochs :: epoch_table where
  "ex_amp_epochs =
     \<lparr>n_rows = 1,
      getitem = (\<lambda>ch i.
        if i \<noteq> 0 then Inl KeyError
        else if ch = ''C3'' then Inr [Fin 5, Fin 1, Fin 10, Fin 2, Fin 9]
        else if ch = ''Cz'' then Inr [Fin 0, Fin 4, Fin 1, Fin 3, Fin 8, Fin 0]
        else if ch = ''C4'' then Inr [Fin 6, Fin 6]
        else Inl KeyError)\<rparr>"

definition ex_amp_lib :: lib where
  "ex_amp_lib =
     ex_lib\<lparr>amp_by_time := (\<lambda>sig fs r.
        if fs = 250 \<and> r = (7, 12) then Inr ([NaN] @ butlast (tl sig) @ [NaN])
        else Inl LibraryError)\<rparr>"

definition ex_amp_notebook :: notebook where
  "ex_amp_notebook = (ex_notebook ex_W1)\<lparr>eeg_epoch_full_df := ex_amp_epochs\<rparr>"





section \<open>Dictionaries and loops\<close>

lemma map_of_dict_set: "map_of (dict_set d k v) k' = (if k' = k then Some v else map_of d k')"
  by (induction d) auto

lemma keys_dict_set: "map fst (dict_set d k v) = add_key (map fst d) k"
  by (induction d) (auto simp: add_key_def rev_image_eqI)

lemma dict_contains_keys: "dict_contains d k \<longleftrightarrow> k \<in> set (map fst d)"
  by (simp add: dict_contains_def map_of_eq_None_iff)

lemma add_key_idem: "k \<in> set ks \<Longrightarrow> add_key ks k = ks"
  by (simp add: add_key_def)

lemma add_key_twice: "add_key (add_key ks k) k = add_key ks k"
  by (simp add: add_key_def)

lemma keys_setdefault: "map fst (dict_setdefault_list d k) = add_key (map fst d) k"
  by (simp add: dict_setdefault_list_def keys_dict_set dict_contains_keys add_key_def)

lemma dict_get_setdefault: "dict_get (dict_setdefault_list d k) k' = dict_get d k'"
  by (simp add: dict_setdefault_list_def dict_get_def map_of_dict_set dict_contains_def)

lemma map_of_setdefault_same: "map_of (dict_setdefault_list d k) k = Some (dict_get d k)"
  by (auto simp: dict_setdefault_list_def dict_get_def map_of_dict_set dict_contains_def)

lemma map_of_setdefault_other:
  "k' \<noteq> k \<Longrightarrow> map_of (dict_setdefault_list d k) k' = map_of d k'"
  by (simp add: dict_setdefault_list_def map_of_dict_set)

lemma dict_append_Some:
  "map_of d k = Some xs \<Longrightarrow> dict_append d k x = Inr (dict_set d k (xs @ [x]))"
  by (simp add: dict_append_def)

lemma dict_get_dict_set: "dict_get (dict_set d k v) k' = (if k' = k then v else dict_get d k')"
  by (simp add: dict_get_def map_of_dict_set)

lemma map_of_dict_get: "k \<in> set (map fst d) \<Longrightarrow> map_of d k = Some (dict_get d k)"
  by (cases "map_of d k") (auto simp: dict_get_def map_of_eq_None_iff)

lemma dict_get_distinct:
  "distinct (map fst d) \<Longrightarrow> kv \<in> set d \<Longrightarrow> dict_get d (fst kv) = snd kv"
  by (cases kv) (simp add: dict_get_def)

lemma for_each_append:
  "for_each (xs @ ys) body s =
     (case for_each xs body s of Inl e \<Rightarrow> Inl e | Inr s' \<Rightarrow> for_each ys body s')"
  by (induction xs arbitrary: s) (auto split: sum.splits)

lemma for_each_returns:
  assumes "\<And>x s. x \<in> set xs \<Longrightarrow> I s \<Longrightarrow> \<exists>s'. body x s = Inr s' \<and> I s'"
    and "I s"
  shows "\<exists>s'. for_each xs body s = Inr s' \<and> I s'"
  using assms
proof (induction xs arbitrary: s)
  case Nil
  then show ?case by simp
next
  case (Cons x xs)
  from Cons.prems(1)[of x s] Cons.prems(2) obtain s1 where
    s1: "body x s = Inr s1" "I s1" by auto
  from Cons.IH[of s1] Cons.prems(1) s1(2) obtain s' where
    "for_each xs body s1 = Inr s'" "I s'" by auto
  with s1 show ?case by simp
qed

lemma py_range_Suc: "py_range (Suc n) = py_range n @ [int n]"
  by (simp add: py_range_def)

section \<open>Column names\<close>

lemma alpha_key_eq: "alpha_key ch = ch @ ''_(7, 12)_inst_med''"
  by (simp add: alpha_key_def str_tuple_def str_int_def alpha_range_def digit_char_def)

lemma alpha_keys_distinct [simp]:
  "alpha_key ''C3'' \<noteq> alpha_key ''Cz''" "alpha_key ''C3'' \<noteq> alpha_key ''C4''"
  "alpha_key ''Cz'' \<noteq> alpha_key ''C4''" "alpha_key ''Cz'' \<noteq> alpha_key ''C3''"
  "alpha_key ''C4'' \<noteq> alpha_key ''C3''" "alpha_key ''C4'' \<noteq> alpha_key ''Cz''"
  by (simp_all add: alpha_key_def)

lemma key_eq_iff [simp]:
  "CF_key a = CF_key b \<longleftrightarrow> a = b" "PW_key a = PW_key b \<longleftrightarrow> a = b"
  "BW_key a = BW_key b \<longleftrightarrow> a = b"
  by (simp_all add: CF_key_def PW_key_def BW_key_def)

lemma key_kinds_differ [simp]:
  "CF_key a \<noteq> PW_key b" "CF_key a \<noteq> BW_key b" "PW_key a \<noteq> BW_key b"
  "PW_key a \<noteq> CF_key b" "BW_key a \<noteq> CF_key b" "BW_key a \<noteq> PW_key b"
proof -
  have l: "last (CF_key a) = CHR ''q''" "last (PW_key b) = CHR ''r''" "last (BW_key b) = CHR ''h''"
    "last (PW_key a) = CHR ''r''" "last (BW_key a) = CHR ''h''" "last (CF_key b) = CHR ''q''"
    by (simp_all add: CF_key_def PW_key_def BW_key_def)
  show "CF_key a \<noteq> PW_key b" "CF_key a \<noteq> BW_key b" "PW_key a \<noteq> BW_key b"
  "PW_key a \<noteq> CF_key b" "BW_key a \<noteq> CF_key b" "BW_key a \<noteq> PW_key b"
    using l by (auto dest: arg_cong[where f=last])
qed

lemma distinct_alpha_keys: "distinct (map alpha_key eeg_chans)"
  by (simp add: eeg_chans_def)

lemma distinct_fooof_keys: "distinct fooof_keys"
  by (simp add: fooof_keys_def eeg_chans_def)

lemma set_fooof_keys:
  "k \<in> set fooof_keys \<longleftrightarrow>
     (\<exists>ch\<in>set eeg_chans. k = CF_key ch \<or> k = PW_key ch \<or> k = BW_key ch)"
  by (auto simp: fooof_keys_def)

lemma new_feature_names_eq:
  "new_feature_names =
     [''C3_(7, 12)_inst_med'', ''Cz_(7, 12)_inst_med'', ''C4_(7, 12)_inst_med'',
      ''C3_alpha_central_freq'', ''C3_alpha_power'', ''C3_alpha_band_width'',
      ''Cz_alpha_central_freq'', ''Cz_alpha_power'', ''Cz_alpha_band_width'',
      ''C4_alpha_central_freq'', ''C4_alpha_power'', ''C4_alpha_band_width'']"
  by (simp add: new_feature_names_def fooof_keys_def eeg_chans_def alpha_key_eq
      CF_key_def PW_key_def BW_key_def)

lemma distinct_new_feature_names: "distinct new_feature_names"
  unfolding new_feature_names_eq by simp

lemma alpha_keys_fix:
  "ks = [] \<or> ks = map alpha_key eeg_chans \<Longrightarrow>
   add_key (add_key (add_key ks (alpha_key ''C3'')) (alpha_key ''Cz'')) (alpha_key ''C4'')
     = map alpha_key eeg_chans"
  by (auto simp: add_key_def eeg_chans_def)

lemma fooof_keys_fix:
  "ks = [] \<or> ks = fooof_keys \<Longrightarrow>
   add_keys3 (add_keys3 (add_keys3 ks ''C3'') ''Cz'') ''C4'' = fooof_keys"
  by (elim disjE; simp add: add_keys3_def add_key_def fooof_keys_def eeg_chans_def)

section \<open>Selection and means\<close>

lemma foldl_float_add_NaN: "foldl float_add NaN xs = NaN"
  by (induction xs) simp_all

lemma foldl_float_add:
  "foldl float_add (Fin a) xs =
     (if NaN \<in> set xs then NaN else Fin (a + sum_list (finite_values xs)))"
proof (induction xs arbitrary: a)
  case Nil
  then show ?case by simp
next
  case (Cons x xs)
  then show ?case by (cases x) (simp_all add: foldl_float_add_NaN add.assoc)
qed

lemma np_mean_arithmetic: "xs \<noteq> [] \<Longrightarrow> np_mean xs = arithmetic_mean xs"
  by (simp add: np_mean_def arithmetic_mean_def foldl_float_add)

lemma select_alpha_loop_filter:
  "select_alpha_loop ps acc = acc @ filter (\<lambda>p. in_alpha_band (CF p)) ps"
proof (induction ps arbitrary: acc)
  case Nil
  then show ?case by simp
next
  case (Cons p ps)
  have "(float_gt (CF p) (fst alpha_range) \<and> float_lt (CF p) (snd alpha_range))
          = in_alpha_band (CF p)"
    by (cases "CF p") (simp_all add: alpha_range_def in_alpha_band_def)
  with Cons show ?case by simp
qed

lemma select_alpha_filter:
  "select_alpha peak_params = filter (\<lambda>p. in_alpha_band (CF p)) peak_params"
  by (simp add: select_alpha_def select_alpha_loop_filter)

lemma alpha_means_eq:
  "alpha_means ps a b =
     (a + (if ps = [] then 0 else 1), b + (if ps = [] then 1 else 0),
      snd (snd (alpha_means ps 0 0)))"
  by (simp add: alpha_means_def)

lemma alpha_triple_cases:
  "alpha_triple peak_params =
     (if select_alpha peak_params = [] then (Fin 0, Fin 0, Fin 0)
      else (arithmetic_mean (map CF (select_alpha peak_params)),
            arithmetic_mean (map PW (select_alpha peak_params)),
            arithmetic_mean (map BW (select_alpha peak_params))))"
  by (simp add: alpha_triple_def alpha_means_def np_mean_axis0_def np_mean_arithmetic)

section \<open>The median\<close>

text \<open>
  The median that the notebook computes, by sorting, is the median by rank; and a list
  of numbers has one median only.
\<close>

lemma finite_values_numbers_of: "finite_values vs = numbers_of vs"
  by (induction vs rule: finite_values.induct) (simp_all add: numbers_of_def)

lemma numbers_of_no_NaN: "NaN \<notin> set vs \<Longrightarrow> map Fin (numbers_of vs) = vs"
proof (induction vs)
  case Nil
  then show ?case by (simp add: numbers_of_def)
next
  case (Cons v vs)
  then show ?case by (cases v) (simp_all add: numbers_of_def)
qed

lemma length_filter_mono:
  "(\<And>x. x \<in> set xs \<Longrightarrow> P x \<Longrightarrow> Q x) \<Longrightarrow> length (filter P xs) \<le> length (filter Q xs)"
  by (induction xs) auto

lemma kth_smallest_member: "kth_smallest xs k x \<Longrightarrow> x \<in> set xs"
proof (rule ccontr)
  assume k: "kth_smallest xs k x" and n: "x \<notin> set xs"
  from n have "filter (\<lambda>y. y \<le> x) xs = filter (\<lambda>y. y < x) xs"
    by (intro filter_cong) (auto simp: less_le)
  with k show False by (auto simp: kth_smallest_def)
qed

lemma kth_smallest_unique:
  assumes "kth_smallest xs k x" and "kth_smallest xs k y"
  shows "x = y"
proof -
  have less: False if a: "kth_smallest xs k a" and b: "kth_smallest xs k b" and "a < b" for a b
  proof -
    have "length (filter (\<lambda>z. z \<le> a) xs) \<le> length (filter (\<lambda>z. z < b) xs)"
      using \<open>a < b\<close> by (intro length_filter_mono) simp
    with a b show False by (simp add: kth_smallest_def)
  qed
  from less[OF assms] less[OF assms(2,1)] show ?thesis by (cases x y rule: linorder_cases) auto
qed

lemma sorted_nth_kth_smallest:
  assumes "sorted ys" and "k < length ys"
  shows "kth_smallest ys k (ys ! k)"
proof -
  let ?x = "ys ! k"
  have d: "filter (\<lambda>y. y < ?x) (drop k ys) = []"
  proof -
    have "?x \<le> y" if "y \<in> set (drop k ys)" for y
    proof -
      from that obtain j where "j < length (drop k ys)" "y = drop k ys ! j"
        by (auto simp: in_set_conv_nth)
      then have "y = ys ! (k + j)" "k + j < length ys" by auto
      with assms(1) show ?thesis by (simp add: sorted_nth_mono)
    qed
    then show ?thesis by (simp add: filter_empty_conv not_less)
  qed
  have "filter (\<lambda>y. y < ?x) ys = filter (\<lambda>y. y < ?x) (take k ys @ drop k ys)" by simp
  also have "\<dots> = filter (\<lambda>y. y < ?x) (take k ys)" unfolding filter_append d by simp
  finally have "length (filter (\<lambda>y. y < ?x) ys) \<le> length (take k ys)"
    by (simp del: length_take)
  then have 1: "length (filter (\<lambda>y. y < ?x) ys) \<le> k" by simp
  have t: "filter (\<lambda>y. y \<le> ?x) (take (Suc k) ys) = take (Suc k) ys"
  proof -
    have "y \<le> ?x" if "y \<in> set (take (Suc k) ys)" for y
    proof -
      from that obtain j where "j < length (take (Suc k) ys)" "y = take (Suc k) ys ! j"
        by (auto simp: in_set_conv_nth)
      then have "y = ys ! j" "j \<le> k" by auto
      with assms show ?thesis by (simp add: sorted_nth_mono)
    qed
    then show ?thesis by (auto simp: filter_id_conv)
  qed
  have "filter (\<lambda>y. y \<le> ?x) ys = filter (\<lambda>y. y \<le> ?x) (take (Suc k) ys @ drop (Suc k) ys)"
    by simp
  also have "\<dots> = take (Suc k) ys @ filter (\<lambda>y. y \<le> ?x) (drop (Suc k) ys)"
    unfolding filter_append t by simp
  finally have "length (filter (\<lambda>y. y \<le> ?x) ys) \<ge> length (take (Suc k) ys)"
    by (simp del: length_take take_Suc)
  with assms(2) have 2: "k < length (filter (\<lambda>y. y \<le> ?x) ys)" by simp
  from 1 2 show ?thesis by (simp add: kth_smallest_def)
qed

lemma length_filter_sort: "length (filter P (sort xs)) = length (filter P (xs :: real list))"
  by (simp add: filter_sort)

lemma sort_nth_kth_smallest:
  assumes "k < length xs"
  shows "kth_smallest xs k (sort xs ! k)"
proof -
  from assms have "kth_smallest (sort xs) k (sort xs ! k)"
    by (intro sorted_nth_kth_smallest) simp_all
  then show ?thesis by (simp add: kth_smallest_def length_filter_sort)
qed

lemma median_is_median:
  assumes "xs \<noteq> []"
  shows "is_median xs (median xs)"
proof -
  let ?n = "length xs"
  let ?a = "sort xs ! ((?n - 1) div 2)" and ?b = "sort xs ! (?n div 2)"
  from assms have n: "0 < ?n" by simp
  have "(?n - 1) div 2 \<le> ?n - 1" by (rule div_le_dividend)
  with n have k: "(?n - 1) div 2 < ?n" "?n div 2 < ?n" by linarith+
  note a = sort_nth_kth_smallest[OF k(1)] and b = sort_nth_kth_smallest[OF k(2)]
  have m: "median xs = (?a + ?b) / 2"
  proof (cases "odd ?n")
    case True
    then have "(?n - 1) div 2 = ?n div 2" by (auto elim!: oddE)
    with True show ?thesis by (simp add: median_def Let_def)
  next
    case False
    with n have "(?n - 1) div 2 = ?n div 2 - 1" by (auto elim!: evenE)
    with False show ?thesis by (simp add: median_def Let_def)
  qed
  from a b m kth_smallest_member[OF a] kth_smallest_member[OF b]
  show ?thesis unfolding is_median_def by blast
qed

lemma is_median_unique:
  assumes "is_median xs m" and "is_median xs m'"
  shows "m = m'"
proof -
  from assms(1) obtain a b where
    1: "kth_smallest xs ((length xs - 1) div 2) a" "kth_smallest xs (length xs div 2) b"
       "m = (a + b) / 2"
    unfolding is_median_def by blast
  from assms(2) obtain a' b' where
    2: "kth_smallest xs ((length xs - 1) div 2) a'" "kth_smallest xs (length xs div 2) b'"
       "m' = (a' + b') / 2"
    unfolding is_median_def by blast
  from kth_smallest_unique[OF 1(1) 2(1)] kth_smallest_unique[OF 1(2) 2(2)] 1(3) 2(3)
  show ?thesis by simp
qed

lemma nanmedian_is_median:
  "(numbers_of amp = [] \<longrightarrow> nanmedian amp = NaN)
   \<and> (numbers_of amp \<noteq> [] \<longrightarrow>
        (\<exists>m. nanmedian amp = Fin m \<and> is_median (numbers_of amp) m
            \<and> (\<forall>m'. is_median (numbers_of amp) m' \<longrightarrow> m' = m)))"
proof (cases "numbers_of amp = []")
  case True
  then show ?thesis by (simp add: nanmedian_def finite_values_numbers_of)
next
  case False
  from median_is_median[OF False] is_median_unique[of "numbers_of amp"] False
  show ?thesis by (auto simp: nanmedian_def finite_values_numbers_of)
qed

section \<open>The windows of the Welch estimate\<close>








section \<open>One pass of a loop body\<close>

lemma alpha_body_effect:
  assumes "alpha_body L i ch s = Inr s'"
  shows "\<exists>sig amp. getitem (eeg_epoch_full_df s) ch i = Inr sig
           \<and> amp_by_time L sig eeg_fs alpha_range = Inr amp
           \<and> s' = s\<lparr>alpha_amps := alpha_amps s'\<rparr>
           \<and> map fst (alpha_amps s') = add_key (map fst (alpha_amps s)) (alpha_key ch)
           \<and> (\<forall>k. dict_get (alpha_amps s') k =
                    dict_get (alpha_amps s) k @ (if k = alpha_key ch then [nanmedian amp] else []))"
  using assms
  by (auto simp: alpha_body_def Let_def dict_append_Some[OF map_of_setdefault_same]
        keys_dict_set keys_setdefault dict_get_dict_set dict_get_setdefault add_key_twice
      split: sum.splits)

lemma alpha_body_returns:
  assumes "getitem (eeg_epoch_full_df s) ch i = Inr sig"
    and "amp_by_time L sig eeg_fs alpha_range = Inr amp"
  shows "\<exists>s'. alpha_body L i ch s = Inr s' \<and> eeg_epoch_full_df s' = eeg_epoch_full_df s"
  using assms
  by (simp add: alpha_body_def Let_def dict_append_Some[OF map_of_setdefault_same])

lemma fooof_body_effect:
  assumes "fooof_body L i ch s = Inr s'"
  shows "\<exists>peaks. fitted_peaks L (eeg_epoch_full_df s) i ch = Inr peaks
           \<and> s' = s\<lparr>num_with_alpha := num_with_alpha s', num_without_alpha := num_without_alpha s',
                     fooof_parameters := fooof_parameters s'\<rparr>
           \<and> num_with_alpha s' = num_with_alpha s + (if select_alpha peaks = [] then 0 else 1)
           \<and> num_without_alpha s' = num_without_alpha s + (if select_alpha peaks = [] then 1 else 0)
           \<and> map fst (fooof_parameters s') =
               add_key (add_key (add_key (map fst (fooof_parameters s)) (CF_key ch)) (PW_key ch)) (BW_key ch)
           \<and> (\<forall>k. dict_get (fooof_parameters s') k =
                    dict_get (fooof_parameters s) k @
                      (if k = CF_key ch then [CF (alpha_triple peaks)]
                       else if k = PW_key ch then [PW (alpha_triple peaks)]
                       else if k = BW_key ch then [BW (alpha_triple peaks)] else []))"
proof -
  let ?d0 = "fooof_parameters s"
  let ?d3 = "dict_setdefault_list (dict_setdefault_list (dict_setdefault_list ?d0 (CF_key ch)) (PW_key ch)) (BW_key ch)"
  from assms obtain peaks where fit: "fitted_peaks L (eeg_epoch_full_df s) i ch = Inr peaks"
    by (auto simp: fooof_body_def Let_def split: sum.splits)
  define t where "t = alpha_triple peaks"
  have m1: "map_of ?d3 (CF_key ch) = Some (dict_get ?d0 (CF_key ch))"
    by (simp add: map_of_setdefault_other map_of_setdefault_same)
  let ?d4 = "dict_set ?d3 (CF_key ch) (dict_get ?d0 (CF_key ch) @ [CF t])"
  have m2: "map_of ?d4 (PW_key ch) = Some (dict_get ?d0 (PW_key ch))"
    by (simp add: map_of_dict_set map_of_setdefault_other map_of_setdefault_same dict_get_setdefault)
  let ?d5 = "dict_set ?d4 (PW_key ch) (dict_get ?d0 (PW_key ch) @ [PW t])"
  have m3: "map_of ?d5 (BW_key ch) = Some (dict_get ?d0 (BW_key ch))"
    by (simp add: map_of_dict_set map_of_setdefault_other map_of_setdefault_same dict_get_setdefault)
  let ?d6 = "dict_set ?d5 (BW_key ch) (dict_get ?d0 (BW_key ch) @ [BW t])"
  have am: "alpha_means (select_alpha peaks) (num_with_alpha s) (num_without_alpha s) =
     (num_with_alpha s + (if select_alpha peaks = [] then 0 else 1),
      num_without_alpha s + (if select_alpha peaks = [] then 1 else 0), t)"
    unfolding t_def alpha_triple_def by (rule alpha_means_eq)
  have s': "s' = s\<lparr>num_with_alpha := num_with_alpha s + (if select_alpha peaks = [] then 0 else 1),
                   num_without_alpha := num_without_alpha s + (if select_alpha peaks = [] then 1 else 0),
                   fooof_parameters := ?d6\<rparr>"
    using assms
    by (simp add: fooof_body_def Let_def fit am dict_append_Some[OF m1] dict_append_Some[OF m2]
        dict_append_Some[OF m3])
  have keys: "map fst ?d6 =
      add_key (add_key (add_key (map fst ?d0) (CF_key ch)) (PW_key ch)) (BW_key ch)"
    by (simp add: keys_dict_set keys_setdefault add_key_def)
  have gets: "dict_get ?d6 k = dict_get ?d0 k @
                      (if k = CF_key ch then [CF t]
                       else if k = PW_key ch then [PW t]
                       else if k = BW_key ch then [BW t] else [])" for k
    by (simp add: dict_get_dict_set dict_get_setdefault)
  have fp: "fooof_parameters s' = ?d6"
    and nw: "num_with_alpha s' = num_with_alpha s + (if select_alpha peaks = [] then 0 else 1)"
    and nwo: "num_without_alpha s' = num_without_alpha s + (if select_alpha peaks = [] then 1 else 0)"
    by (simp_all add: s')
  have frame: "s' = s\<lparr>num_with_alpha := num_with_alpha s', num_without_alpha := num_without_alpha s',
                     fooof_parameters := fooof_parameters s'\<rparr>"
    by (subst (1) s', simp only: fp nw nwo)
  note keys' = keys[folded fp]
  note gets' = gets[folded fp, unfolded t_def]
  show ?thesis
    by (intro exI[of _ peaks] conjI allI) (rule fit frame nw nwo keys' gets')+
qed

lemma fooof_body_returns:
  assumes "fitted_peaks L (eeg_epoch_full_df s) i ch = Inr peaks"
  shows "\<exists>s'. fooof_body L i ch s = Inr s' \<and> eeg_epoch_full_df s' = eeg_epoch_full_df s"
proof -
  let ?d0 = "fooof_parameters s"
  let ?d3 = "dict_setdefault_list (dict_setdefault_list (dict_setdefault_list ?d0 (CF_key ch))
      (PW_key ch)) (BW_key ch)"
  obtain a b t where am:
    "alpha_means (select_alpha peaks) (num_with_alpha s) (num_without_alpha s) = (a, b, t)"
    by (cases "alpha_means (select_alpha peaks) (num_with_alpha s) (num_without_alpha s)")
  have m1: "map_of ?d3 (CF_key ch) = Some (dict_get ?d0 (CF_key ch))"
    by (simp add: map_of_setdefault_other map_of_setdefault_same)
  let ?d4 = "dict_set ?d3 (CF_key ch) (dict_get ?d0 (CF_key ch) @ [CF t])"
  have m2: "map_of ?d4 (PW_key ch) = Some (dict_get ?d0 (PW_key ch))"
    by (simp add: map_of_dict_set map_of_setdefault_other map_of_setdefault_same
        dict_get_setdefault)
  let ?d5 = "dict_set ?d4 (PW_key ch) (dict_get ?d0 (PW_key ch) @ [PW t])"
  have m3: "map_of ?d5 (BW_key ch) = Some (dict_get ?d0 (BW_key ch))"
    by (simp add: map_of_dict_set map_of_setdefault_other map_of_setdefault_same
        dict_get_setdefault)
  show ?thesis
    by (simp add: fooof_body_def Let_def assms am dict_append_Some[OF m1]
        dict_append_Some[OF m2] dict_append_Some[OF m3])
qed

lemma fooof_body_no_peak:
  assumes "fooof_body L j c t = Inr t'"
    and "fitted_peaks L (eeg_epoch_full_df t) j c = Inr pp"
    and "\<forall>param\<in>set pp. \<not> in_alpha_band (CF param)"
  shows "num_without_alpha t' = num_without_alpha t + 1
       \<and> num_with_alpha t' = num_with_alpha t
       \<and> dict_get (fooof_parameters t') (CF_key c) =
           dict_get (fooof_parameters t) (CF_key c) @ [Fin 0]
       \<and> dict_get (fooof_parameters t') (PW_key c) =
           dict_get (fooof_parameters t) (PW_key c) @ [Fin 0]
       \<and> dict_get (fooof_parameters t') (BW_key c) =
           dict_get (fooof_parameters t) (BW_key c) @ [Fin 0]"
proof -
  from assms(3) have sel: "select_alpha pp = []"
    by (simp add: select_alpha_filter filter_empty_conv)
  then have tr: "alpha_triple pp = (Fin 0, Fin 0, Fin 0)"
    by (simp add: alpha_triple_cases)
  from fooof_body_effect[OF assms(1)] assms(2) have
    "num_with_alpha t' = num_with_alpha t + (if select_alpha pp = [] then 0 else 1)"
    "num_without_alpha t' = num_without_alpha t + (if select_alpha pp = [] then 1 else 0)"
    "\<And>k. dict_get (fooof_parameters t') k =
                    dict_get (fooof_parameters t) k @
                      (if k = CF_key c then [CF (alpha_triple pp)]
                       else if k = PW_key c then [PW (alpha_triple pp)]
                       else if k = BW_key c then [BW (alpha_triple pp)] else [])"
    by auto
  then show ?thesis by (simp add: sel tr CF_def PW_def BW_def)
qed

section \<open>The loops\<close>

lemma alpha_frame:
  "s' = s\<lparr>alpha_amps := alpha_amps s'\<rparr> \<Longrightarrow> eeg_epoch_full_df s' = eeg_epoch_full_df s"
  by (metis (no_types) notebook.select_convs(1) notebook.surjective notebook.update_convs(3))

lemma alpha_row_effect:
  assumes "for_each eeg_chans (\<lambda>ch. alpha_body L i ch) s = Inr s'"
  shows "s' = s\<lparr>alpha_amps := alpha_amps s'\<rparr>
       \<and> map fst (alpha_amps s') =
           add_key (add_key (add_key (map fst (alpha_amps s)) (alpha_key ''C3''))
             (alpha_key ''Cz'')) (alpha_key ''C4'')
       \<and> (\<forall>ch\<in>set eeg_chans. \<exists>sig amp.
             getitem (eeg_epoch_full_df s) ch i = Inr sig
             \<and> amp_by_time L sig eeg_fs alpha_range = Inr amp
             \<and> dict_get (alpha_amps s') (alpha_key ch) =
                 dict_get (alpha_amps s) (alpha_key ch) @ [nanmedian amp])"
proof -
  from assms obtain s1 s2 where
    b1: "alpha_body L i ''C3'' s = Inr s1" and
    b2: "alpha_body L i ''Cz'' s1 = Inr s2" and
    b3: "alpha_body L i ''C4'' s2 = Inr s'"
    by (auto simp: eeg_chans_def split: sum.splits)
  note e1 = alpha_body_effect[OF b1]
  note e2 = alpha_body_effect[OF b2]
  note e3 = alpha_body_effect[OF b3]
  from e1 obtain sig1 amp1 where
    g1: "getitem (eeg_epoch_full_df s) ''C3'' i = Inr sig1"
      "amp_by_time L sig1 eeg_fs alpha_range = Inr amp1" and
    f1: "s1 = s\<lparr>alpha_amps := alpha_amps s1\<rparr>" and
    k1: "map fst (alpha_amps s1) = add_key (map fst (alpha_amps s)) (alpha_key ''C3'')" and
    d1: "\<And>k. dict_get (alpha_amps s1) k =
            dict_get (alpha_amps s) k @ (if k = alpha_key ''C3'' then [nanmedian amp1] else [])"
    by blast
  from e2 obtain sig2 amp2 where
    g2: "getitem (eeg_epoch_full_df s1) ''Cz'' i = Inr sig2"
      "amp_by_time L sig2 eeg_fs alpha_range = Inr amp2" and
    f2: "s2 = s1\<lparr>alpha_amps := alpha_amps s2\<rparr>" and
    k2: "map fst (alpha_amps s2) = add_key (map fst (alpha_amps s1)) (alpha_key ''Cz'')" and
    d2: "\<And>k. dict_get (alpha_amps s2) k =
            dict_get (alpha_amps s1) k @ (if k = alpha_key ''Cz'' then [nanmedian amp2] else [])"
    by blast
  from e3 obtain sig3 amp3 where
    g3: "getitem (eeg_epoch_full_df s2) ''C4'' i = Inr sig3"
      "amp_by_time L sig3 eeg_fs alpha_range = Inr amp3" and
    f3: "s' = s2\<lparr>alpha_amps := alpha_amps s'\<rparr>" and
    k3: "map fst (alpha_amps s') = add_key (map fst (alpha_amps s2)) (alpha_key ''C4'')" and
    d3: "\<And>k. dict_get (alpha_amps s') k =
            dict_get (alpha_amps s2) k @ (if k = alpha_key ''C4'' then [nanmedian amp3] else [])"
    by blast
  have ep1: "eeg_epoch_full_df s1 = eeg_epoch_full_df s" by (rule alpha_frame[OF f1])
  have ep2: "eeg_epoch_full_df s2 = eeg_epoch_full_df s" using alpha_frame[OF f2] ep1 by simp
  have frame: "s' = s\<lparr>alpha_amps := alpha_amps s'\<rparr>"
    by (subst f3, subst f2, subst f1) simp
  have keys: "map fst (alpha_amps s') =
           add_key (add_key (add_key (map fst (alpha_amps s)) (alpha_key ''C3''))
             (alpha_key ''Cz'')) (alpha_key ''C4'')"
    by (simp only: k3 k2 k1)
  have vals: "\<forall>ch\<in>set eeg_chans. \<exists>sig amp.
             getitem (eeg_epoch_full_df s) ch i = Inr sig
             \<and> amp_by_time L sig eeg_fs alpha_range = Inr amp
             \<and> dict_get (alpha_amps s') (alpha_key ch) =
                 dict_get (alpha_amps s) (alpha_key ch) @ [nanmedian amp]"
    using g1 g2[unfolded ep1] g3[unfolded ep2]
    by (simp add: eeg_chans_def d3 d2 d1)
  show ?thesis using frame keys vals by blast
qed

lemma alpha_rows_inv:
  assumes "for_each (py_range k) (\<lambda>i. for_each eeg_chans (\<lambda>ch. alpha_body L i ch)) s0 = Inr s'"
    and "alpha_amps s0 = []"
  shows "s' = s0\<lparr>alpha_amps := alpha_amps s'\<rparr>
       \<and> map fst (alpha_amps s') = (if k = 0 then [] else map alpha_key eeg_chans)
       \<and> (\<forall>ch\<in>set eeg_chans.
             length (dict_get (alpha_amps s') (alpha_key ch)) = k
             \<and> (\<forall>i<k. \<exists>sig amp.
                   getitem (eeg_epoch_full_df s0) ch (int i) = Inr sig
                   \<and> amp_by_time L sig eeg_fs alpha_range = Inr amp
                   \<and> dict_get (alpha_amps s') (alpha_key ch) ! i = nanmedian amp))"
  using assms
proof (induction k arbitrary: s')
  case 0
  then show ?case by (simp add: py_range_def dict_get_def)
next
  case (Suc k)
  from Suc.prems(1) obtain s1 where
    r1: "for_each (py_range k) (\<lambda>i. for_each eeg_chans (\<lambda>ch. alpha_body L i ch)) s0 = Inr s1"
    and r2: "for_each eeg_chans (\<lambda>ch. alpha_body L (int k) ch) s1 = Inr s'"
    by (auto simp: py_range_Suc for_each_append split: sum.splits)
  note ih = Suc.IH[OF r1 Suc.prems(2)]
  note row = alpha_row_effect[OF r2]
  from ih have f1: "s1 = s0\<lparr>alpha_amps := alpha_amps s1\<rparr>" by blast
  from row have f2: "s' = s1\<lparr>alpha_amps := alpha_amps s'\<rparr>" by blast
  have ep: "eeg_epoch_full_df s1 = eeg_epoch_full_df s0" by (rule alpha_frame[OF f1])
  have frame: "s' = s0\<lparr>alpha_amps := alpha_amps s'\<rparr>"
    by (subst f2, subst f1) simp
  have keys: "map fst (alpha_amps s') = map alpha_key eeg_chans"
  proof -
    from ih have "map fst (alpha_amps s1) = [] \<or> map fst (alpha_amps s1) = map alpha_key eeg_chans"
      by (auto split: if_splits)
    from alpha_keys_fix[OF this] row show ?thesis by simp
  qed
  have vals: "length (dict_get (alpha_amps s') (alpha_key ch)) = Suc k
             \<and> (\<forall>i<Suc k. \<exists>sig amp.
                   getitem (eeg_epoch_full_df s0) ch (int i) = Inr sig
                   \<and> amp_by_time L sig eeg_fs alpha_range = Inr amp
                   \<and> dict_get (alpha_amps s') (alpha_key ch) ! i = nanmedian amp)"
    if ch: "ch \<in> set eeg_chans" for ch
  proof -
    from row ch obtain sig amp where
      g: "getitem (eeg_epoch_full_df s1) ch (int k) = Inr sig"
         "amp_by_time L sig eeg_fs alpha_range = Inr amp" and
      d: "dict_get (alpha_amps s') (alpha_key ch) =
                 dict_get (alpha_amps s1) (alpha_key ch) @ [nanmedian amp]"
      by blast
    from ih ch have len: "length (dict_get (alpha_amps s1) (alpha_key ch)) = k"
      and old: "\<forall>i<k. \<exists>sig amp.
                   getitem (eeg_epoch_full_df s0) ch (int i) = Inr sig
                   \<and> amp_by_time L sig eeg_fs alpha_range = Inr amp
                   \<and> dict_get (alpha_amps s1) (alpha_key ch) ! i = nanmedian amp"
      by blast+
    show ?thesis
    proof (intro conjI allI impI)
      show "length (dict_get (alpha_amps s') (alpha_key ch)) = Suc k"
        by (simp add: d len)
    next
      fix i assume "i < Suc k"
      then consider "i < k" | "i = k" by linarith
      then show "\<exists>sig amp.
                   getitem (eeg_epoch_full_df s0) ch (int i) = Inr sig
                   \<and> amp_by_time L sig eeg_fs alpha_range = Inr amp
                   \<and> dict_get (alpha_amps s') (alpha_key ch) ! i = nanmedian amp"
      proof cases
        case 1
        with old show ?thesis by (simp add: d nth_append len)
      next
        case 2
        with g ep show ?thesis by (simp add: d nth_append len)
      qed
    qed
  qed
  show ?case using frame keys vals by simp
qed

lemma fooof_frame:
  assumes "s' = s\<lparr>num_with_alpha := a, num_without_alpha := b, fooof_parameters := d\<rparr>"
  shows "eeg_epoch_full_df s' = eeg_epoch_full_df s" "W1_feature_df s' = W1_feature_df s"
    "alpha_amps s' = alpha_amps s" "alpha_med_df s' = alpha_med_df s"
    "feature_df s' = feature_df s" "fooof_parameters_df s' = fooof_parameters_df s"
  by (simp_all add: assms)

lemma fooof_row_effect:
  assumes "for_each eeg_chans (\<lambda>ch. fooof_body L i ch) s = Inr s'"
  shows "s' = s\<lparr>num_with_alpha := num_with_alpha s', num_without_alpha := num_without_alpha s',
                 fooof_parameters := fooof_parameters s'\<rparr>
       \<and> num_with_alpha s' + num_without_alpha s' = num_with_alpha s + num_without_alpha s + 3
       \<and> map fst (fooof_parameters s') =
           add_keys3 (add_keys3 (add_keys3 (map fst (fooof_parameters s)) ''C3'') ''Cz'') ''C4''
       \<and> (\<forall>ch\<in>set eeg_chans. \<exists>peaks.
             fitted_peaks L (eeg_epoch_full_df s) i ch = Inr peaks
             \<and> dict_get (fooof_parameters s') (CF_key ch) =
                 dict_get (fooof_parameters s) (CF_key ch) @ [CF (alpha_triple peaks)]
             \<and> dict_get (fooof_parameters s') (PW_key ch) =
                 dict_get (fooof_parameters s) (PW_key ch) @ [PW (alpha_triple peaks)]
             \<and> dict_get (fooof_parameters s') (BW_key ch) =
                 dict_get (fooof_parameters s) (BW_key ch) @ [BW (alpha_triple peaks)])"
proof -
  from assms obtain s1 s2 where
    b1: "fooof_body L i ''C3'' s = Inr s1" and
    b2: "fooof_body L i ''Cz'' s1 = Inr s2" and
    b3: "fooof_body L i ''C4'' s2 = Inr s'"
    by (auto simp: eeg_chans_def split: sum.splits)
  from fooof_body_effect[OF b1] obtain p1 where
    g1: "fitted_peaks L (eeg_epoch_full_df s) i ''C3'' = Inr p1" and
    f1: "s1 = s\<lparr>num_with_alpha := num_with_alpha s1, num_without_alpha := num_without_alpha s1,
                 fooof_parameters := fooof_parameters s1\<rparr>" and
    c1: "num_with_alpha s1 = num_with_alpha s + (if select_alpha p1 = [] then 0 else 1)"
        "num_without_alpha s1 = num_without_alpha s + (if select_alpha p1 = [] then 1 else 0)" and
    k1: "map fst (fooof_parameters s1) = add_keys3 (map fst (fooof_parameters s)) ''C3''" and
    d1: "\<And>k. dict_get (fooof_parameters s1) k =
                    dict_get (fooof_parameters s) k @
                      (if k = CF_key ''C3'' then [CF (alpha_triple p1)]
                       else if k = PW_key ''C3'' then [PW (alpha_triple p1)]
                       else if k = BW_key ''C3'' then [BW (alpha_triple p1)] else [])"
    unfolding add_keys3_def by blast
  from fooof_body_effect[OF b2] obtain p2 where
    g2: "fitted_peaks L (eeg_epoch_full_df s1) i ''Cz'' = Inr p2" and
    f2: "s2 = s1\<lparr>num_with_alpha := num_with_alpha s2, num_without_alpha := num_without_alpha s2,
                 fooof_parameters := fooof_parameters s2\<rparr>" and
    c2: "num_with_alpha s2 = num_with_alpha s1 + (if select_alpha p2 = [] then 0 else 1)"
        "num_without_alpha s2 = num_without_alpha s1 + (if select_alpha p2 = [] then 1 else 0)" and
    k2: "map fst (fooof_parameters s2) = add_keys3 (map fst (fooof_parameters s1)) ''Cz''" and
    d2: "\<And>k. dict_get (fooof_parameters s2) k =
                    dict_get (fooof_parameters s1) k @
                      (if k = CF_key ''Cz'' then [CF (alpha_triple p2)]
                       else if k = PW_key ''Cz'' then [PW (alpha_triple p2)]
                       else if k = BW_key ''Cz'' then [BW (alpha_triple p2)] else [])"
    unfolding add_keys3_def by blast
  from fooof_body_effect[OF b3] obtain p3 where
    g3: "fitted_peaks L (eeg_epoch_full_df s2) i ''C4'' = Inr p3" and
    f3: "s' = s2\<lparr>num_with_alpha := num_with_alpha s', num_without_alpha := num_without_alpha s',
                 fooof_parameters := fooof_parameters s'\<rparr>" and
    c3: "num_with_alpha s' = num_with_alpha s2 + (if select_alpha p3 = [] then 0 else 1)"
        "num_without_alpha s' = num_without_alpha s2 + (if select_alpha p3 = [] then 1 else 0)" and
    k3: "map fst (fooof_parameters s') = add_keys3 (map fst (fooof_parameters s2)) ''C4''" and
    d3: "\<And>k. dict_get (fooof_parameters s') k =
                    dict_get (fooof_parameters s2) k @
                      (if k = CF_key ''C4'' then [CF (alpha_triple p3)]
                       else if k = PW_key ''C4'' then [PW (alpha_triple p3)]
                       else if k = BW_key ''C4'' then [BW (alpha_triple p3)] else [])"
    unfolding add_keys3_def by blast
  have ep1: "eeg_epoch_full_df s1 = eeg_epoch_full_df s" by (rule fooof_frame(1)[OF f1])
  have ep2: "eeg_epoch_full_df s2 = eeg_epoch_full_df s"
    using fooof_frame(1)[OF f2] ep1 by simp
  have frame: "s' = s\<lparr>num_with_alpha := num_with_alpha s', num_without_alpha := num_without_alpha s',
                 fooof_parameters := fooof_parameters s'\<rparr>"
    by (subst f3, subst f2, subst f1) simp
  have cnt: "num_with_alpha s' + num_without_alpha s' = num_with_alpha s + num_without_alpha s + 3"
    by (simp add: c1 c2 c3)
  have keys: "map fst (fooof_parameters s') =
           add_keys3 (add_keys3 (add_keys3 (map fst (fooof_parameters s)) ''C3'') ''Cz'') ''C4''"
    by (simp only: k3 k2 k1)
  have vals: "\<forall>ch\<in>set eeg_chans. \<exists>peaks.
             fitted_peaks L (eeg_epoch_full_df s) i ch = Inr peaks
             \<and> dict_get (fooof_parameters s') (CF_key ch) =
                 dict_get (fooof_parameters s) (CF_key ch) @ [CF (alpha_triple peaks)]
             \<and> dict_get (fooof_parameters s') (PW_key ch) =
                 dict_get (fooof_parameters s) (PW_key ch) @ [PW (alpha_triple peaks)]
             \<and> dict_get (fooof_parameters s') (BW_key ch) =
                 dict_get (fooof_parameters s) (BW_key ch) @ [BW (alpha_triple peaks)]"
    using g1 g2[unfolded ep1] g3[unfolded ep2]
    by (simp add: eeg_chans_def d3 d2 d1)
  show ?thesis using frame cnt keys vals by blast
qed

lemma fooof_rows_inv:
  assumes "fooof_from L k s0 = Inr s'" and "fooof_parameters s0 = []"
  shows "s' = s0\<lparr>num_with_alpha := num_with_alpha s', num_without_alpha := num_without_alpha s',
                 fooof_parameters := fooof_parameters s'\<rparr>
       \<and> num_with_alpha s' + num_without_alpha s' =
           num_with_alpha s0 + num_without_alpha s0 + 3 * int k
       \<and> map fst (fooof_parameters s') = (if k = 0 then [] else fooof_keys)
       \<and> (\<forall>ch\<in>set eeg_chans.
             length (dict_get (fooof_parameters s') (CF_key ch)) = k
             \<and> length (dict_get (fooof_parameters s') (PW_key ch)) = k
             \<and> length (dict_get (fooof_parameters s') (BW_key ch)) = k
             \<and> (\<forall>i<k. \<exists>peaks.
                   fitted_peaks L (eeg_epoch_full_df s0) (int i) ch = Inr peaks
                   \<and> dict_get (fooof_parameters s') (CF_key ch) ! i = CF (alpha_triple peaks)
                   \<and> dict_get (fooof_parameters s') (PW_key ch) ! i = PW (alpha_triple peaks)
                   \<and> dict_get (fooof_parameters s') (BW_key ch) ! i = BW (alpha_triple peaks)))"
  using assms
proof (induction k arbitrary: s')
  case 0
  then show ?case by (simp add: fooof_from_def py_range_def dict_get_def)
next
  case (Suc k)
  from Suc.prems(1) obtain s1 where
    r1: "fooof_from L k s0 = Inr s1"
    and r2: "for_each eeg_chans (\<lambda>ch. fooof_body L (int k) ch) s1 = Inr s'"
    by (auto simp: fooof_from_def py_range_Suc for_each_append split: sum.splits)
  note ih = Suc.IH[OF r1 Suc.prems(2)]
  note row = fooof_row_effect[OF r2]
  from ih have f1: "s1 = s0\<lparr>num_with_alpha := num_with_alpha s1,
      num_without_alpha := num_without_alpha s1, fooof_parameters := fooof_parameters s1\<rparr>"
    by blast
  from row have f2: "s' = s1\<lparr>num_with_alpha := num_with_alpha s',
      num_without_alpha := num_without_alpha s', fooof_parameters := fooof_parameters s'\<rparr>"
    by blast
  have ep: "eeg_epoch_full_df s1 = eeg_epoch_full_df s0" by (rule fooof_frame(1)[OF f1])
  have frame: "s' = s0\<lparr>num_with_alpha := num_with_alpha s',
      num_without_alpha := num_without_alpha s', fooof_parameters := fooof_parameters s'\<rparr>"
    by (subst f2, subst f1) simp
  have cnt: "num_with_alpha s' + num_without_alpha s' =
           num_with_alpha s0 + num_without_alpha s0 + 3 * int (Suc k)"
  proof -
    from row have "num_with_alpha s' + num_without_alpha s' =
        num_with_alpha s1 + num_without_alpha s1 + 3" by blast
    moreover from ih have "num_with_alpha s1 + num_without_alpha s1 =
           num_with_alpha s0 + num_without_alpha s0 + 3 * int k" by blast
    ultimately show ?thesis by simp
  qed
  have keys: "map fst (fooof_parameters s') = fooof_keys"
  proof -
    from ih have "map fst (fooof_parameters s1) = [] \<or> map fst (fooof_parameters s1) = fooof_keys"
      by (auto split: if_splits)
    from fooof_keys_fix[OF this] row show ?thesis by simp
  qed
  have vals: "length (dict_get (fooof_parameters s') (CF_key ch)) = Suc k
             \<and> length (dict_get (fooof_parameters s') (PW_key ch)) = Suc k
             \<and> length (dict_get (fooof_parameters s') (BW_key ch)) = Suc k
             \<and> (\<forall>i<Suc k. \<exists>peaks.
                   fitted_peaks L (eeg_epoch_full_df s0) (int i) ch = Inr peaks
                   \<and> dict_get (fooof_parameters s') (CF_key ch) ! i = CF (alpha_triple peaks)
                   \<and> dict_get (fooof_parameters s') (PW_key ch) ! i = PW (alpha_triple peaks)
                   \<and> dict_get (fooof_parameters s') (BW_key ch) ! i = BW (alpha_triple peaks))"
    if ch: "ch \<in> set eeg_chans" for ch
  proof -
    from row ch obtain peaks where
      g: "fitted_peaks L (eeg_epoch_full_df s1) (int k) ch = Inr peaks" and
      d: "dict_get (fooof_parameters s') (CF_key ch) =
                 dict_get (fooof_parameters s1) (CF_key ch) @ [CF (alpha_triple peaks)]"
         "dict_get (fooof_parameters s') (PW_key ch) =
                 dict_get (fooof_parameters s1) (PW_key ch) @ [PW (alpha_triple peaks)]"
         "dict_get (fooof_parameters s') (BW_key ch) =
                 dict_get (fooof_parameters s1) (BW_key ch) @ [BW (alpha_triple peaks)]"
      by blast
    from ih ch have len: "length (dict_get (fooof_parameters s1) (CF_key ch)) = k"
        "length (dict_get (fooof_parameters s1) (PW_key ch)) = k"
        "length (dict_get (fooof_parameters s1) (BW_key ch)) = k"
      and old: "\<forall>i<k. \<exists>peaks.
                   fitted_peaks L (eeg_epoch_full_df s0) (int i) ch = Inr peaks
                   \<and> dict_get (fooof_parameters s1) (CF_key ch) ! i = CF (alpha_triple peaks)
                   \<and> dict_get (fooof_parameters s1) (PW_key ch) ! i = PW (alpha_triple peaks)
                   \<and> dict_get (fooof_parameters s1) (BW_key ch) ! i = BW (alpha_triple peaks)"
      by blast+
    show ?thesis
    proof (intro conjI allI impI)
      fix i assume "i < Suc k"
      then consider "i < k" | "i = k" by linarith
      then show "\<exists>peaks.
                   fitted_peaks L (eeg_epoch_full_df s0) (int i) ch = Inr peaks
                   \<and> dict_get (fooof_parameters s') (CF_key ch) ! i = CF (alpha_triple peaks)
                   \<and> dict_get (fooof_parameters s') (PW_key ch) ! i = PW (alpha_triple peaks)
                   \<and> dict_get (fooof_parameters s') (BW_key ch) ! i = BW (alpha_triple peaks)"
      proof cases
        case 1
        with old show ?thesis by (simp add: d nth_append len)
      next
        case 2
        with g ep show ?thesis by (simp add: d nth_append len)
      qed
    qed (simp_all add: d len)
  qed
  show ?case using frame cnt keys vals by simp
qed

text \<open>The loops return when every library call of every trial and channel does.\<close>

lemma alpha_amps_loop_returns:
  assumes "\<forall>i<n_rows (eeg_epoch_full_df s). \<forall>ch\<in>set eeg_chans. \<exists>sig amp.
      getitem (eeg_epoch_full_df s) ch (int i) = Inr sig
      \<and> amp_by_time L sig eeg_fs alpha_range = Inr amp"
  shows "\<exists>s'. alpha_amps_loop L s = Inr s'"
proof -
  let ?I = "\<lambda>t::notebook. eeg_epoch_full_df t = eeg_epoch_full_df s"
  have row: "\<exists>t'. for_each eeg_chans (\<lambda>ch. alpha_body L i ch) t = Inr t' \<and> ?I t'"
    if i: "i \<in> set (py_range (n_rows (eeg_epoch_full_df s)))" and t: "?I t" for i and t :: notebook
  proof (rule for_each_returns[where I = ?I])
    fix ch and u :: notebook assume ch: "ch \<in> set eeg_chans" and u: "?I u"
    from i obtain j where j: "j < n_rows (eeg_epoch_full_df s)" "i = int j"
      by (auto simp: py_range_def)
    from assms j ch obtain sig amp where
      "getitem (eeg_epoch_full_df u) ch i = Inr sig"
      "amp_by_time L sig eeg_fs alpha_range = Inr amp"
      unfolding u by blast
    from alpha_body_returns[OF this] u
    show "\<exists>s'. alpha_body L i ch u = Inr s' \<and> ?I s'" by simp
  qed (rule t)
  have "\<exists>s'. for_each (py_range (n_rows (eeg_epoch_full_df s)))
       (\<lambda>i. for_each eeg_chans (\<lambda>ch. alpha_body L i ch)) (s\<lparr>alpha_amps := []\<rparr>) = Inr s'
       \<and> ?I s'"
    by (rule for_each_returns[where I = ?I]) (use row in simp_all)
  then show ?thesis by (auto simp: alpha_amps_loop_def)
qed

lemma fooof_cell_returns:
  assumes "\<forall>i<n_rows (eeg_epoch_full_df s). \<forall>ch\<in>set eeg_chans. \<exists>peaks.
      fitted_peaks L (eeg_epoch_full_df s) (int i) ch = Inr peaks"
  shows "\<exists>s'. fooof_cell L s = Inr s'"
proof -
  let ?I = "\<lambda>t::notebook. eeg_epoch_full_df t = eeg_epoch_full_df s"
  have row: "\<exists>t'. for_each eeg_chans (\<lambda>ch. fooof_body L i ch) t = Inr t' \<and> ?I t'"
    if i: "i \<in> set (py_range (n_rows (eeg_epoch_full_df s)))" and t: "?I t" for i and t :: notebook
  proof (rule for_each_returns[where I = ?I])
    fix ch and u :: notebook assume ch: "ch \<in> set eeg_chans" and u: "?I u"
    from i obtain j where j: "j < n_rows (eeg_epoch_full_df s)" "i = int j"
      by (auto simp: py_range_def)
    from assms j ch obtain peaks where
      "fitted_peaks L (eeg_epoch_full_df u) i ch = Inr peaks"
      unfolding u by blast
    from fooof_body_returns[OF this] u
    show "\<exists>s'. fooof_body L i ch u = Inr s' \<and> ?I s'" by simp
  qed (rule t)
  have "\<exists>s'. for_each (py_range (n_rows (eeg_epoch_full_df s)))
       (\<lambda>i. for_each eeg_chans (\<lambda>ch. fooof_body L i ch))
       (s\<lparr>num_with_alpha := 0, num_without_alpha := 0, fooof_parameters := []\<rparr>) = Inr s'
       \<and> ?I s'"
    by (rule for_each_returns[where I = ?I]) (use row in simp_all)
  then show ?thesis by (auto simp: fooof_cell_def fooof_from_def)
qed

section \<open>Tables\<close>

lemma DataFrame_equal_lengths:
  assumes "\<forall>kv\<in>set d. length (snd kv) = n" and "d = [] \<longrightarrow> n = 0"
  shows "DataFrame d = Inr \<lparr>df_index = py_range n, df_columns = d\<rparr>"
proof (cases d)
  case Nil
  with assms show ?thesis by (simp add: DataFrame_def py_range_def)
next
  case (Cons kv rest)
  obtain k v where kv: "kv = (k, v)" by (cases kv)
  from assms(1) Cons kv have "length v = n" "list_all (\<lambda>kv. length (snd kv) = n) rest"
    by (auto simp: list_all_iff)
  then show ?thesis by (simp add: DataFrame_def Cons kv)
qed

lemma names_reindex: "map fst (reindex new df) = df_names df"
  by (simp add: reindex_def df_names_def comp_def)

lemma pd_concat_names:
  "pd_concat_axis1 dfs = Inr r \<Longrightarrow> df_names r = concat (map df_names dfs)"
proof -
  have 1: "map fst (concat (map df_columns dfs)) = concat (map df_names dfs)"
    by (simp add: map_concat comp_def df_names_def[abs_def])
  have 2: "map fst (concat (map (reindex new) dfs)) = concat (map df_names dfs)" for new
    by (simp add: map_concat comp_def names_reindex)
  assume "pd_concat_axis1 dfs = Inr r"
  then have "df_columns r = concat (map df_columns dfs)
      \<or> (\<exists>new. df_columns r = concat (map (reindex new) dfs))"
    by (cases dfs) (auto simp: pd_concat_axis1_def Let_def split: if_splits)
  then show ?thesis
    unfolding df_names_def[of r] using 1 2 by auto
qed

lemma pd_concat_same_index:
  "list_all (\<lambda>df. df_index df = df_index df0) rest \<Longrightarrow>
   pd_concat_axis1 (df0 # rest) =
     Inr \<lparr>df_index = df_index df0, df_columns = concat (map df_columns (df0 # rest))\<rparr>"
  by (simp add: pd_concat_axis1_def)

section \<open>The cells\<close>

lemma alpha_loop_effect:
  assumes "alpha_amps_loop L s = Inr s1"
  shows "s1 = s\<lparr>alpha_amps := alpha_amps s1\<rparr>
       \<and> map fst (alpha_amps s1) =
           (if n_rows (eeg_epoch_full_df s) = 0 then [] else map alpha_key eeg_chans)
       \<and> (\<forall>ch\<in>set eeg_chans.
             length (dict_get (alpha_amps s1) (alpha_key ch)) = n_rows (eeg_epoch_full_df s)
             \<and> (\<forall>i<n_rows (eeg_epoch_full_df s). \<exists>sig amp.
                   getitem (eeg_epoch_full_df s) ch (int i) = Inr sig
                   \<and> amp_by_time L sig eeg_fs alpha_range = Inr amp
                   \<and> dict_get (alpha_amps s1) (alpha_key ch) ! i = nanmedian amp))"
proof -
  let ?s0 = "s\<lparr>alpha_amps := []\<rparr>"
  from assms have run: "for_each (py_range (n_rows (eeg_epoch_full_df s)))
       (\<lambda>i. for_each eeg_chans (\<lambda>ch. alpha_body L i ch)) ?s0 = Inr s1"
    by (simp add: alpha_amps_loop_def)
  have e: "alpha_amps ?s0 = []" by simp
  note inv = alpha_rows_inv[OF run e]
  from inv have "s1 = ?s0\<lparr>alpha_amps := alpha_amps s1\<rparr>" by blast
  then have frame: "s1 = s\<lparr>alpha_amps := alpha_amps s1\<rparr>" by simp
  from inv frame show ?thesis by simp
qed

lemma alpha_dict_lengths:
  assumes "alpha_amps_loop L s = Inr s1"
  shows "\<forall>kv\<in>set (alpha_amps s1). length (snd kv) = n_rows (eeg_epoch_full_df s)"
proof
  fix kv assume kv: "kv \<in> set (alpha_amps s1)"
  note eff = alpha_loop_effect[OF assms]
  from eff have keys: "map fst (alpha_amps s1) =
           (if n_rows (eeg_epoch_full_df s) = 0 then [] else map alpha_key eeg_chans)" by blast
  from kv have "fst kv \<in> set (map fst (alpha_amps s1))" by simp
  with keys obtain ch where ch: "ch \<in> set eeg_chans" "fst kv = alpha_key ch"
    by (auto split: if_splits)
  from keys have "distinct (map fst (alpha_amps s1))"
    using distinct_alpha_keys by (simp split: if_splits)
  from dict_get_distinct[OF this kv]
  have "dict_get (alpha_amps s1) (alpha_key ch) = snd kv" by (simp add: ch)
  with eff ch show "length (snd kv) = n_rows (eeg_epoch_full_df s)" by auto
qed

lemma alpha_cell_effect:
  assumes "alpha_cell L s = Inr s'"
  shows "\<exists>s1 F. alpha_amps_loop L s = Inr s1
           \<and> pd_concat_axis1 [W1_feature_df s,
                \<lparr>df_index = py_range (n_rows (eeg_epoch_full_df s)),
                 df_columns = alpha_amps s1\<rparr>] = Inr F
           \<and> s' = s\<lparr>alpha_amps := alpha_amps s1,
                  alpha_med_df := \<lparr>df_index = py_range (n_rows (eeg_epoch_full_df s)),
                                   df_columns = alpha_amps s1\<rparr>,
                  feature_df := F\<rparr>"
proof -
  from assms obtain s1 where loop: "alpha_amps_loop L s = Inr s1"
    by (auto simp: alpha_cell_def split: sum.splits)
  note eff = alpha_loop_effect[OF loop]
  from eff have frame: "s1 = s\<lparr>alpha_amps := alpha_amps s1\<rparr>" by blast
  have W: "W1_feature_df s1 = W1_feature_df s" by (subst frame) simp
  from eff have "alpha_amps s1 = [] \<longrightarrow> n_rows (eeg_epoch_full_df s) = 0"
    by (auto simp: eeg_chans_def split: if_splits)
  from DataFrame_equal_lengths[OF alpha_dict_lengths[OF loop] this]
  have df: "DataFrame (alpha_amps s1) =
     Inr \<lparr>df_index = py_range (n_rows (eeg_epoch_full_df s)), df_columns = alpha_amps s1\<rparr>" .
  from assms obtain F where
    F: "pd_concat_axis1 [W1_feature_df s,
                \<lparr>df_index = py_range (n_rows (eeg_epoch_full_df s)),
                 df_columns = alpha_amps s1\<rparr>] = Inr F" and
    s': "s' = s1\<lparr>alpha_med_df := \<lparr>df_index = py_range (n_rows (eeg_epoch_full_df s)),
                                   df_columns = alpha_amps s1\<rparr>,
                  feature_df := F\<rparr>"
    by (auto simp: alpha_cell_def loop df W split: sum.splits)
  have "s' = s\<lparr>alpha_amps := alpha_amps s1,
                  alpha_med_df := \<lparr>df_index = py_range (n_rows (eeg_epoch_full_df s)),
                                   df_columns = alpha_amps s1\<rparr>,
                  feature_df := F\<rparr>"
    by (subst s', subst frame) simp
  with loop F show ?thesis by blast
qed

lemma fooof_cell_effect:
  assumes "fooof_cell L s = Inr s'"
  shows "s' = s\<lparr>num_with_alpha := num_with_alpha s', num_without_alpha := num_without_alpha s',
                 fooof_parameters := fooof_parameters s'\<rparr>
       \<and> num_with_alpha s' + num_without_alpha s' = 3 * int (n_rows (eeg_epoch_full_df s))
       \<and> map fst (fooof_parameters s') =
           (if n_rows (eeg_epoch_full_df s) = 0 then [] else fooof_keys)
       \<and> (\<forall>ch\<in>set eeg_chans.
             length (dict_get (fooof_parameters s') (CF_key ch)) = n_rows (eeg_epoch_full_df s)
             \<and> length (dict_get (fooof_parameters s') (PW_key ch)) = n_rows (eeg_epoch_full_df s)
             \<and> length (dict_get (fooof_parameters s') (BW_key ch)) = n_rows (eeg_epoch_full_df s)
             \<and> (\<forall>i<n_rows (eeg_epoch_full_df s). \<exists>peaks.
                   fitted_peaks L (eeg_epoch_full_df s) (int i) ch = Inr peaks
                   \<and> dict_get (fooof_parameters s') (CF_key ch) ! i = CF (alpha_triple peaks)
                   \<and> dict_get (fooof_parameters s') (PW_key ch) ! i = PW (alpha_triple peaks)
                   \<and> dict_get (fooof_parameters s') (BW_key ch) ! i = BW (alpha_triple peaks)))"
proof -
  let ?s0 = "s\<lparr>num_with_alpha := 0, num_without_alpha := 0, fooof_parameters := []\<rparr>"
  from assms have run: "fooof_from L (n_rows (eeg_epoch_full_df s)) ?s0 = Inr s'"
    by (simp add: fooof_cell_def)
  have e: "fooof_parameters ?s0 = []" by simp
  note inv = fooof_rows_inv[OF run e]
  from inv have "s' = ?s0\<lparr>num_with_alpha := num_with_alpha s',
      num_without_alpha := num_without_alpha s', fooof_parameters := fooof_parameters s'\<rparr>"
    by blast
  then have frame: "s' = s\<lparr>num_with_alpha := num_with_alpha s',
      num_without_alpha := num_without_alpha s', fooof_parameters := fooof_parameters s'\<rparr>"
    by simp
  from inv frame show ?thesis by simp
qed

lemma fooof_dict_lengths:
  assumes "fooof_cell L s = Inr s'"
  shows "\<forall>kv\<in>set (fooof_parameters s'). length (snd kv) = n_rows (eeg_epoch_full_df s)"
proof
  fix kv assume kv: "kv \<in> set (fooof_parameters s')"
  note eff = fooof_cell_effect[OF assms]
  from eff have keys: "map fst (fooof_parameters s') =
           (if n_rows (eeg_epoch_full_df s) = 0 then [] else fooof_keys)" by blast
  from kv have "fst kv \<in> set (map fst (fooof_parameters s'))" by simp
  with keys have "fst kv \<in> set fooof_keys" by (auto split: if_splits)
  then obtain ch where ch: "ch \<in> set eeg_chans"
      "fst kv = CF_key ch \<or> fst kv = PW_key ch \<or> fst kv = BW_key ch"
    unfolding set_fooof_keys by blast
  from keys have "distinct (map fst (fooof_parameters s'))"
    using distinct_fooof_keys by (simp split: if_splits)
  from dict_get_distinct[OF this kv]
  have "dict_get (fooof_parameters s') (fst kv) = snd kv" .
  with eff ch show "length (snd kv) = n_rows (eeg_epoch_full_df s)" by auto
qed

lemma fooof_DataFrame:
  assumes "fooof_cell L s = Inr s'"
  shows "DataFrame (fooof_parameters s') =
     Inr \<lparr>df_index = py_range (n_rows (eeg_epoch_full_df s)),
          df_columns = fooof_parameters s'\<rparr>"
proof -
  from fooof_cell_effect[OF assms]
  have "fooof_parameters s' = [] \<longrightarrow> n_rows (eeg_epoch_full_df s) = 0"
    by (auto simp: fooof_keys_def eeg_chans_def split: if_splits)
  from DataFrame_equal_lengths[OF fooof_dict_lengths[OF assms] this] show ?thesis .
qed

lemma assemble_cell_effect:
  assumes "assemble_cell s = Inr s'"
  shows "\<exists>df F. DataFrame (fooof_parameters s) = Inr df
           \<and> pd_concat_axis1 [W1_feature_df s, alpha_med_df s, df] = Inr F
           \<and> num_with_alpha s + num_without_alpha s \<noteq> 0
           \<and> s' = s\<lparr>fooof_parameters_df := df, feature_df := F\<rparr>"
  using assms
  by (auto simp: assemble_cell_def Let_def pct_with_alpha_def int_truediv_def
      split: sum.splits if_splits)

lemma alpha_cell_epochs:
  "alpha_cell L s = Inr s' \<Longrightarrow> eeg_epoch_full_df s' = eeg_epoch_full_df s"
  by (drule alpha_cell_effect) auto

lemma fooof_cell_epochs:
  assumes "fooof_cell L s = Inr s'"
  shows "eeg_epoch_full_df s' = eeg_epoch_full_df s"
proof -
  from fooof_cell_effect[OF assms]
  have "s' = s\<lparr>num_with_alpha := num_with_alpha s', num_without_alpha := num_without_alpha s',
                 fooof_parameters := fooof_parameters s'\<rparr>"
    by blast
  from fooof_frame(1)[OF this] show ?thesis .
qed

lemma assemble_cell_epochs:
  "assemble_cell s = Inr s' \<Longrightarrow> eeg_epoch_full_df s' = eeg_epoch_full_df s"
  by (drule assemble_cell_effect) auto

lemma extract_features_steps:
  assumes "extract_features L s = Inr s'"
  shows "\<exists>s1 s2. alpha_cell L s = Inr s1 \<and> fooof_cell L s1 = Inr s2
           \<and> assemble_cell s2 = Inr s'"
  using assms by (auto simp: extract_features_def split: sum.splits)


section \<open>The example run\<close>

lemma ex_alpha_loop:
  "alpha_amps_loop ex_lib (ex_notebook W) = Inr ((ex_notebook W)\<lparr>alpha_amps := ex_alpha_dict\<rparr>)"
  by (simp add: alpha_amps_loop_def ex_notebook_def ex_epochs_def ex_lib_def py_range_def
      eeg_chans_def alpha_body_def eeg_fs_def alpha_range_def alpha_key_eq ex_alpha_dict_def
      dict_setdefault_list_def dict_contains_def dict_append_def nanmedian_def median_def)

lemma ex_fitted:
  "fitted_peaks ex_lib ex_epochs 0 ''C3'' =
     Inr [(Fin 8, Fin 1, Fin 2), (Fin 20, Fin 5, Fin 5), (Fin 10, Fin 3, Fin 4)]"
  "fitted_peaks ex_lib ex_epochs 0 ''Cz'' = Inr [(Fin 7, Fin 1, Fin 1), (Fin 12, Fin 1, Fin 1)]"
  "fitted_peaks ex_lib ex_epochs 0 ''C4'' = Inr []"
  by (simp_all add: fitted_peaks_def ex_epochs_def ex_lib_def getMeanFreqPSD_def eeg_fs_def)

lemma ex_select:
  "select_alpha [(Fin 8, Fin 1, Fin 2), (Fin 20, Fin 5, Fin 5), (Fin 10, Fin 3, Fin 4)] =
     [(Fin 8, Fin 1, Fin 2), (Fin 10, Fin 3, Fin 4)]"
  "select_alpha [(Fin 7, Fin 1, Fin 1), (Fin 12, Fin 1, Fin 1)] = []"
  "select_alpha [] = []"
  by (simp_all add: select_alpha_def CF_def alpha_range_def)

lemma ex_means:
  "alpha_means [(Fin 8, Fin 1, Fin 2), (Fin 10, Fin 3, Fin 4)] a b = (a + 1, b, (Fin 9, Fin 2, Fin 3))"
  "alpha_means [] a b = (a, b + 1, (Fin 0, Fin 0, Fin 0))"
  by (simp_all add: alpha_means_def np_mean_axis0_def np_mean_def CF_def PW_def BW_def)

lemma ex_fooof_cell:
  assumes "eeg_epoch_full_df s = ex_epochs"
  shows "fooof_cell ex_lib s =
     Inr (s\<lparr>num_with_alpha := 1, num_without_alpha := 2, fooof_parameters := ex_fooof_dict\<rparr>)"
  by (simp add: fooof_cell_def fooof_from_def assms py_range_def eeg_chans_def fooof_body_def
      ex_fitted ex_select ex_means CF_key_def PW_key_def BW_key_def CF_def PW_def BW_def
      dict_setdefault_list_def dict_contains_def dict_append_def ex_fooof_dict_def
      ex_epochs_def[THEN arg_cong[where f=n_rows], simplified])

lemma ex_fooof_body_Cz:
  "fooof_body ex_lib 0 ''Cz'' (ex_notebook ex_W1) =
     Inr ((ex_notebook ex_W1)\<lparr>num_with_alpha := 0, num_without_alpha := 1,
       fooof_parameters := [(''Cz_alpha_central_freq'', [Fin 0]), (''Cz_alpha_power'', [Fin 0]),
          (''Cz_alpha_band_width'', [Fin 0])]\<rparr>)"
  by (simp add: fooof_body_def ex_notebook_def ex_fitted ex_select ex_means
      CF_key_def PW_key_def BW_key_def CF_def PW_def BW_def
      dict_setdefault_list_def dict_contains_def dict_append_def)

lemma ex_alpha_cell:
  "alpha_cell ex_lib (ex_notebook W) =
     (case pd_concat_axis1 [W, ex_alpha_med_df] of
        Inl e \<Rightarrow> Inl e
      | Inr f \<Rightarrow> Inr ((ex_notebook W)\<lparr>alpha_amps := ex_alpha_dict,
                         alpha_med_df := ex_alpha_med_df, feature_df := f\<rparr>))"
proof -
  have "DataFrame ex_alpha_dict = Inr ex_alpha_med_df"
    by (simp add: DataFrame_def ex_alpha_dict_def ex_alpha_med_df_def py_range_def)
  then show ?thesis
    by (simp add: alpha_cell_def ex_alpha_loop) (simp add: ex_notebook_def)
qed

lemma ex_assemble_cell:
  assumes "fooof_parameters s = ex_fooof_dict" "num_with_alpha s = 1" "num_without_alpha s = 2"
  shows "assemble_cell s =
     (case pd_concat_axis1 [W1_feature_df s, alpha_med_df s, ex_fooof_df] of
        Inl e \<Rightarrow> Inl e
      | Inr f \<Rightarrow> Inr (s\<lparr>fooof_parameters_df := ex_fooof_df, feature_df := f\<rparr>))"
proof -
  have "DataFrame ex_fooof_dict = Inr ex_fooof_df"
    by (simp add: DataFrame_def ex_fooof_dict_def ex_fooof_df_def py_range_def)
  then show ?thesis
    by (simp add: assemble_cell_def assms pct_with_alpha_def int_truediv_def
        split: sum.splits)
qed

lemma ex_extract_features:
  assumes "pd_concat_axis1 [W, ex_alpha_med_df] = Inr f0"
    and "pd_concat_axis1 [W, ex_alpha_med_df, ex_fooof_df] = Inr f"
  shows "extract_features ex_lib (ex_notebook W) =
     Inr \<lparr>eeg_epoch_full_df = ex_epochs, W1_feature_df = W, alpha_amps = ex_alpha_dict,
          alpha_med_df = ex_alpha_med_df, feature_df = f, num_with_alpha = 1,
          num_without_alpha = 2, fooof_parameters = ex_fooof_dict,
          fooof_parameters_df = ex_fooof_df\<rparr>"
proof -
  let ?s1 = "(ex_notebook W)\<lparr>alpha_amps := ex_alpha_dict,
                         alpha_med_df := ex_alpha_med_df, feature_df := f0\<rparr>"
  let ?s2 = "?s1\<lparr>num_with_alpha := 1, num_without_alpha := 2, fooof_parameters := ex_fooof_dict\<rparr>"
  have 1: "alpha_cell ex_lib (ex_notebook W) = Inr ?s1"
    by (simp add: ex_alpha_cell assms(1))
  have "eeg_epoch_full_df ?s1 = ex_epochs" by (simp add: ex_notebook_def)
  from ex_fooof_cell[OF this] have 2: "fooof_cell ex_lib ?s1 = Inr ?s2" .
  have "assemble_cell ?s2 =
     (case pd_concat_axis1 [W1_feature_df ?s2, alpha_med_df ?s2, ex_fooof_df] of
        Inl e \<Rightarrow> Inl e
      | Inr f \<Rightarrow> Inr (?s2\<lparr>fooof_parameters_df := ex_fooof_df, feature_df := f\<rparr>))"
    by (rule ex_assemble_cell) simp_all
  then have 3: "assemble_cell ?s2 =
      Inr (?s2\<lparr>fooof_parameters_df := ex_fooof_df, feature_df := f\<rparr>)"
    by (simp add: ex_notebook_def assms(2))
  have "extract_features ex_lib (ex_notebook W) =
      Inr (?s2\<lparr>fooof_parameters_df := ex_fooof_df, feature_df := f\<rparr>)"
    unfolding extract_features_def by (simp only: 1 2 3 sum.case)
  then show ?thesis by (simp add: ex_notebook_def)
qed

lemma ex_concat_W1:
  "pd_concat_axis1 [ex_W1, ex_alpha_med_df] =
     Inr \<lparr>df_index = [0], df_columns = (''y'', [Fin 1]) # ex_alpha_dict\<rparr>"
  "pd_concat_axis1 [ex_W1, ex_alpha_med_df, ex_fooof_df] =
     Inr \<lparr>df_index = [0], df_columns = (''y'', [Fin 1]) # ex_alpha_dict @ ex_fooof_dict\<rparr>"
  by (simp_all add: pd_concat_axis1_def ex_W1_def ex_alpha_med_df_def ex_fooof_df_def)

lemma ex_concat_label1:
  "pd_concat_axis1 [ex_W1_label1, ex_alpha_med_df] =
     Inr \<lparr>df_index = [1, 0],
          df_columns = (''y'', [Fin 1, NaN]) # map (\<lambda>kv. (fst kv, NaN # snd kv)) ex_alpha_dict\<rparr>"
  "pd_concat_axis1 [ex_W1_label1, ex_alpha_med_df, ex_fooof_df] =
     Inr \<lparr>df_index = [1, 0],
          df_columns = (''y'', [Fin 1, NaN])
            # map (\<lambda>kv. (fst kv, NaN # snd kv)) (ex_alpha_dict @ ex_fooof_dict)\<rparr>"
  by (simp_all add: pd_concat_axis1_def ex_W1_label1_def ex_alpha_med_df_def ex_fooof_df_def
      index_union_def reindex_def reindex_column_def ex_alpha_dict_def ex_fooof_dict_def)

lemma ex_concat_clash:
  "pd_concat_axis1 [ex_W1_clash, ex_alpha_med_df] =
     Inr \<lparr>df_index = [0, 1],
          df_columns = (''C3_alpha_power'', [Fin 1, Fin 0])
            # map (\<lambda>kv. (fst kv, snd kv @ [NaN])) ex_alpha_dict\<rparr>"
  "pd_concat_axis1 [ex_W1_clash, ex_alpha_med_df, ex_fooof_df] =
     Inr \<lparr>df_index = [0, 1],
          df_columns = (''C3_alpha_power'', [Fin 1, Fin 0])
            # map (\<lambda>kv. (fst kv, snd kv @ [NaN])) (ex_alpha_dict @ ex_fooof_dict)\<rparr>"
  by (simp_all add: pd_concat_axis1_def ex_W1_clash_def ex_alpha_med_df_def ex_fooof_df_def
      index_union_def reindex_def reindex_column_def ex_alpha_dict_def ex_fooof_dict_def)

lemma ex_concat_repeated:
  "pd_concat_axis1 [ex_W1_repeated, ex_alpha_med_df] =
     Inr \<lparr>df_index = [0, 0],
          df_columns = (''y'', [Fin 1, Fin 2])
            # map (\<lambda>kv. (fst kv, snd kv @ snd kv)) ex_alpha_dict\<rparr>"
  "pd_concat_axis1 [ex_W1_repeated_other, ex_alpha_med_df] = Inl InvalidIndexError"
  by (simp_all add: pd_concat_axis1_def ex_W1_repeated_def ex_W1_repeated_other_def
      ex_alpha_med_df_def index_union_def reindex_def reindex_column_def ex_alpha_dict_def)

lemma ex_extract_W1:
  "extract_features ex_lib (ex_notebook ex_W1) =
     Inr \<lparr>eeg_epoch_full_df = ex_epochs, W1_feature_df = ex_W1, alpha_amps = ex_alpha_dict,
          alpha_med_df = ex_alpha_med_df,
          feature_df = \<lparr>df_index = [0],
            df_columns = (''y'', [Fin 1]) # ex_alpha_dict @ ex_fooof_dict\<rparr>,
          num_with_alpha = 1, num_without_alpha = 2, fooof_parameters = ex_fooof_dict,
          fooof_parameters_df = ex_fooof_df\<rparr>"
  by (rule ex_extract_features[OF ex_concat_W1])

lemma ex_assemble:
  "assemble_cell ex_before_assemble =
     Inr (ex_before_assemble\<lparr>fooof_parameters_df := ex_fooof_df,
       feature_df := \<lparr>df_index = [0],
            df_columns = (''y'', [Fin 1]) # ex_alpha_dict @ ex_fooof_dict\<rparr>\<rparr>)"
  by (subst ex_assemble_cell) (simp_all add: ex_before_assemble_def ex_concat_W1)

lemma ex_amp_loop:
  "alpha_amps_loop ex_amp_lib ex_amp_notebook =
     Inr (ex_amp_notebook\<lparr>alpha_amps :=
       [(''C3_(7, 12)_inst_med'', [Fin 2]), (''Cz_(7, 12)_inst_med'', [Fin (7 / 2)]),
        (''C4_(7, 12)_inst_med'', [NaN])]\<rparr>)"
  by (simp add: alpha_amps_loop_def ex_amp_notebook_def ex_notebook_def ex_amp_epochs_def
      ex_amp_lib_def ex_lib_def py_range_def
      eeg_chans_def alpha_body_def eeg_fs_def alpha_range_def alpha_key_def str_tuple_def str_int_def digit_char_def
      dict_setdefault_list_def dict_contains_def dict_append_def nanmedian_def median_def)

lemma ex_is_median:
  "is_median [1, 10, 2] 2" "\<not> is_median [1, 10, 2] (13 / 3)"
  "is_median [4, 1, 3, 8] (7 / 2)" "\<not> is_median [4, 1, 3, 8] 4"
  by (simp_all add: is_median_def kth_smallest_def)





section \<open>Peak selection and the two counters\<close>

text \<open>
  Claim C1. When the peak-parameter cell returns, then for every trial \<open>i\<close> and every EEG
  channel \<open>ch\<close> the fit on the trial's PSD returned a list of peaks; the selection keeps
  exactly the fitted peaks whose center frequency lies strictly inside (7, 12), both
  endpoints excluded; and when at least one peak qualifies, row \<open>i\<close> of the channel's three
  columns (center frequency, power, bandwidth) holds the element-wise arithmetic mean of
  the qualifying peaks.
\<close>

theorem peak_selection_mean:
  assumes "fooof_cell L s = Inr s'"
    and "i < n_rows (eeg_epoch_full_df s)"
    and "ch \<in> set eeg_chans"
  shows "\<exists>peak_params.
      fitted_peaks L (eeg_epoch_full_df s) (int i) ch = Inr peak_params
    \<and> select_alpha peak_params = filter (\<lambda>param. in_alpha_band (CF param)) peak_params
    \<and> (select_alpha peak_params \<noteq> [] \<longrightarrow>
         i < length (dict_get (fooof_parameters s') (CF_key ch))
       \<and> dict_get (fooof_parameters s') (CF_key ch) ! i =
           arithmetic_mean (map CF (select_alpha peak_params))
       \<and> dict_get (fooof_parameters s') (PW_key ch) ! i =
           arithmetic_mean (map PW (select_alpha peak_params))
       \<and> dict_get (fooof_parameters s') (BW_key ch) ! i =
           arithmetic_mean (map BW (select_alpha peak_params)))"
proof -
  from fooof_cell_effect[OF assms(1)] assms(2,3) obtain peaks where
    fit: "fitted_peaks L (eeg_epoch_full_df s) (int i) ch = Inr peaks" and
    len: "length (dict_get (fooof_parameters s') (CF_key ch)) = n_rows (eeg_epoch_full_df s)" and
    val: "dict_get (fooof_parameters s') (CF_key ch) ! i = CF (alpha_triple peaks)"
         "dict_get (fooof_parameters s') (PW_key ch) ! i = PW (alpha_triple peaks)"
         "dict_get (fooof_parameters s') (BW_key ch) ! i = BW (alpha_triple peaks)"
    by blast
  have "select_alpha peaks \<noteq> [] \<Longrightarrow> alpha_triple peaks =
      (arithmetic_mean (map CF (select_alpha peaks)),
       arithmetic_mean (map PW (select_alpha peaks)),
       arithmetic_mean (map BW (select_alpha peaks)))"
    by (simp add: alpha_triple_cases)
  then have "select_alpha peaks \<noteq> [] \<longrightarrow>
         i < length (dict_get (fooof_parameters s') (CF_key ch))
       \<and> dict_get (fooof_parameters s') (CF_key ch) ! i =
           arithmetic_mean (map CF (select_alpha peaks))
       \<and> dict_get (fooof_parameters s') (PW_key ch) ! i =
           arithmetic_mean (map PW (select_alpha peaks))
       \<and> dict_get (fooof_parameters s') (BW_key ch) ! i =
           arithmetic_mean (map BW (select_alpha peaks))"
    using assms(2) by (simp add: val len CF_def PW_def BW_def)
  with fit select_alpha_filter[of peaks] show ?thesis by blast
qed

theorem peak_selection_mean_witness:
  "fitted_peaks ex_lib ex_epochs 0 ''C3'' =
     Inr [(Fin 8, Fin 1, Fin 2), (Fin 20, Fin 5, Fin 5), (Fin 10, Fin 3, Fin 4)]
   \<and> select_alpha [(Fin 8, Fin 1, Fin 2), (Fin 20, Fin 5, Fin 5), (Fin 10, Fin 3, Fin 4)] =
       [(Fin 8, Fin 1, Fin 2), (Fin 10, Fin 3, Fin 4)]
   \<and> (\<exists>s'. fooof_cell ex_lib (ex_notebook ex_W1) = Inr s'
         \<and> dict_get (fooof_parameters s') (CF_key ''C3'') ! 0 = Fin 9
         \<and> dict_get (fooof_parameters s') (PW_key ''C3'') ! 0 = Fin 2
         \<and> dict_get (fooof_parameters s') (BW_key ''C3'') ! 0 = Fin 3)"
proof -
  have ep: "eeg_epoch_full_df (ex_notebook ex_W1) = ex_epochs" by (simp add: ex_notebook_def)
  note run = ex_fooof_cell[OF ep]
  have i: "0 < n_rows (eeg_epoch_full_df (ex_notebook ex_W1))"
    by (simp add: ep ex_epochs_def)
  have ch: "''C3'' \<in> set eeg_chans" by (simp add: eeg_chans_def)
  from peak_selection_mean[OF run i ch]
  have "dict_get (fooof_parameters ((ex_notebook ex_W1)\<lparr>num_with_alpha := 1,
          num_without_alpha := 2, fooof_parameters := ex_fooof_dict\<rparr>)) (CF_key ''C3'') ! 0 = Fin 9
      \<and> dict_get (fooof_parameters ((ex_notebook ex_W1)\<lparr>num_with_alpha := 1,
          num_without_alpha := 2, fooof_parameters := ex_fooof_dict\<rparr>)) (PW_key ''C3'') ! 0 = Fin 2
      \<and> dict_get (fooof_parameters ((ex_notebook ex_W1)\<lparr>num_with_alpha := 1,
          num_without_alpha := 2, fooof_parameters := ex_fooof_dict\<rparr>)) (BW_key ''C3'') ! 0 = Fin 3"
    by (simp add: ep ex_fitted ex_select arithmetic_mean_def CF_def PW_def BW_def)
  with run show ?thesis by (simp add: ex_fitted ex_select)
qed

text \<open>
  Claim C2. For a trial and channel whose fit returned no peak with a center frequency
  strictly inside (7, 12): the row of the trial in the channel's three columns is exactly
  (0, 0, 0), a number each and not NaN; and the pass of the loop body for the pair
  appends 0 to each of the three columns, adds one to \<^verbatim>\<open>num_without_alpha\<close> and leaves
  \<^verbatim>\<open>num_with_alpha\<close> as it was.
\<close>

theorem no_alpha_peak_zero_triple:
  "(fooof_cell L s = Inr s' \<and> i < n_rows (eeg_epoch_full_df s) \<and> ch \<in> set eeg_chans
      \<and> fitted_peaks L (eeg_epoch_full_df s) (int i) ch = Inr peak_params
      \<and> (\<forall>param\<in>set peak_params. \<not> in_alpha_band (CF param))
    \<longrightarrow> dict_get (fooof_parameters s') (CF_key ch) ! i = Fin 0
      \<and> dict_get (fooof_parameters s') (PW_key ch) ! i = Fin 0
      \<and> dict_get (fooof_parameters s') (BW_key ch) ! i = Fin 0)
   \<and> (fooof_body L j c t = Inr t'
      \<and> fitted_peaks L (eeg_epoch_full_df t) j c = Inr pp
      \<and> (\<forall>param\<in>set pp. \<not> in_alpha_band (CF param))
    \<longrightarrow> num_without_alpha t' = num_without_alpha t + 1
      \<and> num_with_alpha t' = num_with_alpha t
      \<and> dict_get (fooof_parameters t') (CF_key c) =
           dict_get (fooof_parameters t) (CF_key c) @ [Fin 0]
      \<and> dict_get (fooof_parameters t') (PW_key c) =
           dict_get (fooof_parameters t) (PW_key c) @ [Fin 0]
      \<and> dict_get (fooof_parameters t') (BW_key c) =
           dict_get (fooof_parameters t) (BW_key c) @ [Fin 0])"
proof (intro conjI impI)
  assume a: "fooof_cell L s = Inr s' \<and> i < n_rows (eeg_epoch_full_df s) \<and> ch \<in> set eeg_chans
      \<and> fitted_peaks L (eeg_epoch_full_df s) (int i) ch = Inr peak_params
      \<and> (\<forall>param\<in>set peak_params. \<not> in_alpha_band (CF param))"
  then have sel: "select_alpha peak_params = []"
    by (simp add: select_alpha_filter filter_empty_conv)
  from a fooof_cell_effect[of L s s'] obtain peaks where
    fit: "fitted_peaks L (eeg_epoch_full_df s) (int i) ch = Inr peaks" and
    val: "dict_get (fooof_parameters s') (CF_key ch) ! i = CF (alpha_triple peaks)"
         "dict_get (fooof_parameters s') (PW_key ch) ! i = PW (alpha_triple peaks)"
         "dict_get (fooof_parameters s') (BW_key ch) ! i = BW (alpha_triple peaks)"
    by blast
  from fit a have "peaks = peak_params" by simp
  with val sel show "dict_get (fooof_parameters s') (CF_key ch) ! i = Fin 0"
    "dict_get (fooof_parameters s') (PW_key ch) ! i = Fin 0"
    "dict_get (fooof_parameters s') (BW_key ch) ! i = Fin 0"
    by (simp_all add: alpha_triple_cases CF_def PW_def BW_def)
next
  assume b: "fooof_body L j c t = Inr t'
      \<and> fitted_peaks L (eeg_epoch_full_df t) j c = Inr pp
      \<and> (\<forall>param\<in>set pp. \<not> in_alpha_band (CF param))"
  then have 1: "fooof_body L j c t = Inr t'" and 2: "fitted_peaks L (eeg_epoch_full_df t) j c = Inr pp"
    and 3: "\<forall>param\<in>set pp. \<not> in_alpha_band (CF param)" by blast+
  note r = fooof_body_no_peak[OF 1 2 3]
  from r show "num_without_alpha t' = num_without_alpha t + 1" by blast
  from r show "num_with_alpha t' = num_with_alpha t" by blast
  from r show "dict_get (fooof_parameters t') (CF_key c) =
           dict_get (fooof_parameters t) (CF_key c) @ [Fin 0]" by blast
  from r show "dict_get (fooof_parameters t') (PW_key c) =
           dict_get (fooof_parameters t) (PW_key c) @ [Fin 0]" by blast
  from r show "dict_get (fooof_parameters t') (BW_key c) =
           dict_get (fooof_parameters t) (BW_key c) @ [Fin 0]" by blast
qed

theorem no_alpha_peak_zero_triple_witness:
  "fitted_peaks ex_lib ex_epochs 0 ''Cz'' = Inr [(Fin 7, Fin 1, Fin 1), (Fin 12, Fin 1, Fin 1)]
   \<and> \<not> in_alpha_band (Fin 7) \<and> \<not> in_alpha_band (Fin 12)
   \<and> (\<exists>s'. fooof_cell ex_lib (ex_notebook ex_W1) = Inr s'
         \<and> dict_get (fooof_parameters s') (CF_key ''Cz'') ! 0 = Fin 0
         \<and> dict_get (fooof_parameters s') (PW_key ''Cz'') ! 0 = Fin 0
         \<and> dict_get (fooof_parameters s') (BW_key ''Cz'') ! 0 = Fin 0)
   \<and> (\<exists>t'. fooof_body ex_lib 0 ''Cz'' (ex_notebook ex_W1) = Inr t'
         \<and> num_without_alpha t' = num_without_alpha (ex_notebook ex_W1) + 1
         \<and> num_with_alpha t' = num_with_alpha (ex_notebook ex_W1)
         \<and> dict_get (fooof_parameters t') (CF_key ''Cz'') = [Fin 0]
         \<and> dict_get (fooof_parameters t') (PW_key ''Cz'') = [Fin 0]
         \<and> dict_get (fooof_parameters t') (BW_key ''Cz'') = [Fin 0])"
proof -
  have ep: "eeg_epoch_full_df (ex_notebook ex_W1) = ex_epochs" by (simp add: ex_notebook_def)
  note run = ex_fooof_cell[OF ep]
  have i: "0 < n_rows (eeg_epoch_full_df (ex_notebook ex_W1))"
    by (simp add: ep ex_epochs_def)
  have ch: "''Cz'' \<in> set eeg_chans" by (simp add: eeg_chans_def)
  have fit: "fitted_peaks ex_lib (eeg_epoch_full_df (ex_notebook ex_W1)) (int 0) ''Cz'' =
      Inr [(Fin 7, Fin 1, Fin 1), (Fin 12, Fin 1, Fin 1)]"
    by (simp add: ep ex_fitted)
  have no: "\<forall>param\<in>set [(Fin 7, Fin 1, Fin 1), (Fin 12, Fin 1, Fin 1)].
      \<not> in_alpha_band (CF param)"
    by (simp add: in_alpha_band_def CF_def)
  have d0: "dict_get (fooof_parameters (ex_notebook ex_W1)) k = []" for k
    by (simp add: ex_notebook_def dict_get_def)
  note inst = no_alpha_peak_zero_triple[of ex_lib "ex_notebook ex_W1" _ 0 "''Cz''"
      "[(Fin 7, Fin 1, Fin 1), (Fin 12, Fin 1, Fin 1)]" 0 "''Cz''" "ex_notebook ex_W1" _
      "[(Fin 7, Fin 1, Fin 1), (Fin 12, Fin 1, Fin 1)]"]
  from inst[THEN conjunct1, rule_format, OF conjI[OF run conjI[OF i conjI[OF ch conjI[OF fit no]]]]]
  have loop: "\<exists>s'. fooof_cell ex_lib (ex_notebook ex_W1) = Inr s'
         \<and> dict_get (fooof_parameters s') (CF_key ''Cz'') ! 0 = Fin 0
         \<and> dict_get (fooof_parameters s') (PW_key ''Cz'') ! 0 = Fin 0
         \<and> dict_get (fooof_parameters s') (BW_key ''Cz'') ! 0 = Fin 0"
    using run by blast
  from inst[THEN conjunct2, rule_format, OF conjI[OF ex_fooof_body_Cz conjI[OF fit[simplified] no]]]
  have body: "\<exists>t'. fooof_body ex_lib 0 ''Cz'' (ex_notebook ex_W1) = Inr t'
         \<and> num_without_alpha t' = num_without_alpha (ex_notebook ex_W1) + 1
         \<and> num_with_alpha t' = num_with_alpha (ex_notebook ex_W1)
         \<and> dict_get (fooof_parameters t') (CF_key ''Cz'') = [Fin 0]
         \<and> dict_get (fooof_parameters t') (PW_key ''Cz'') = [Fin 0]
         \<and> dict_get (fooof_parameters t') (BW_key ''Cz'') = [Fin 0]"
    using ex_fooof_body_Cz by (simp add: d0)
  show ?thesis using loop body by (simp add: ex_fitted in_alpha_band_def)
qed

text \<open>
  Claim C10. Every pass of the loop body adds one to exactly one of the two counters and
  leaves the other; so after the loop their sum is the number of trials times 3, and
  when the epoch table has a row the fraction the notebook prints is defined.
\<close>

theorem counters_count_every_pair:
  "(fooof_body L j c t = Inr t' \<longrightarrow>
       (num_with_alpha t' = num_with_alpha t + 1 \<and> num_without_alpha t' = num_without_alpha t)
     \<or> (num_with_alpha t' = num_with_alpha t \<and> num_without_alpha t' = num_without_alpha t + 1))
   \<and> (fooof_cell L s = Inr s' \<longrightarrow>
         num_with_alpha s' + num_without_alpha s' = int (n_rows (eeg_epoch_full_df s)) * 3
       \<and> (0 < n_rows (eeg_epoch_full_df s) \<longrightarrow>
            pct_with_alpha s' =
              Inr (real_of_int (num_with_alpha s') / (real (n_rows (eeg_epoch_full_df s)) * 3))))"
proof (intro conjI impI)
  assume "fooof_body L j c t = Inr t'"
  from fooof_body_effect[OF this] obtain peaks where
    "num_with_alpha t' = num_with_alpha t + (if select_alpha peaks = [] then 0 else 1)"
    "num_without_alpha t' = num_without_alpha t + (if select_alpha peaks = [] then 1 else 0)"
    by blast
  then show "(num_with_alpha t' = num_with_alpha t + 1 \<and> num_without_alpha t' = num_without_alpha t)
     \<or> (num_with_alpha t' = num_with_alpha t \<and> num_without_alpha t' = num_without_alpha t + 1)"
    by (cases "select_alpha peaks = []") simp_all
next
  assume "fooof_cell L s = Inr s'"
  from fooof_cell_effect[OF this]
  have sum: "num_with_alpha s' + num_without_alpha s' = 3 * int (n_rows (eeg_epoch_full_df s))"
    by blast
  then show "num_with_alpha s' + num_without_alpha s' = int (n_rows (eeg_epoch_full_df s)) * 3"
    by simp
  assume "0 < n_rows (eeg_epoch_full_df s)"
  with sum show "pct_with_alpha s' =
              Inr (real_of_int (num_with_alpha s') / (real (n_rows (eeg_epoch_full_df s)) * 3))"
    by (simp add: pct_with_alpha_def int_truediv_def)
qed

theorem counters_count_every_pair_witness:
  "(\<exists>t'. fooof_body ex_lib 0 ''Cz'' (ex_notebook ex_W1) = Inr t'
       \<and> num_with_alpha t' = 0 \<and> num_without_alpha t' = 1)
   \<and> (\<exists>s'. fooof_cell ex_lib (ex_notebook ex_W1) = Inr s'
       \<and> num_with_alpha s' + num_without_alpha s' = 3
       \<and> pct_with_alpha s' = Inr (1 / 3))"
proof -
  have ep: "eeg_epoch_full_df (ex_notebook ex_W1) = ex_epochs" by (simp add: ex_notebook_def)
  note run = ex_fooof_cell[OF ep]
  have n: "n_rows (eeg_epoch_full_df (ex_notebook ex_W1)) = 1"
    by (simp add: ep ex_epochs_def)
  note inst = counters_count_every_pair[of ex_lib 0 "''Cz''" "ex_notebook ex_W1" _
      "ex_notebook ex_W1"]
  from inst[THEN conjunct1, rule_format, OF ex_fooof_body_Cz]
  have body: "\<exists>t'. fooof_body ex_lib 0 ''Cz'' (ex_notebook ex_W1) = Inr t'
       \<and> num_with_alpha t' = 0 \<and> num_without_alpha t' = 1"
    using ex_fooof_body_Cz by simp
  from inst[THEN conjunct2, rule_format, OF run]
  have loop: "\<exists>s'. fooof_cell ex_lib (ex_notebook ex_W1) = Inr s'
       \<and> num_with_alpha s' + num_without_alpha s' = 3
       \<and> pct_with_alpha s' = Inr (1 / 3)"
    using run by (simp add: n)
  from body loop show ?thesis by blast
qed

section \<open>The amplitude feature\<close>

text \<open>
  Claim C3. When the loop of the alpha-amplitude cell returns, then for every trial \<open>i\<close>
  and every EEG channel \<open>ch\<close>: the envelope routine returned an envelope for the trial's
  series on the channel at 250 Hz and the band (7, 12); the dict of the loop makes a
  table, the one the cell assigns to \<^verbatim>\<open>alpha_med_df\<close>; the column
  \<^verbatim>\<open>ch_(7, 12)_inst_med\<close> has one value per trial; and its value at row \<open>i\<close> is the
  median of the samples of the envelope that are numbers, that is the one in the middle
  in order of size, or halfway between the two in the middle when their number is even,
  and no other value is their median. The value is NaN when no sample of the envelope is
  a number. The samples that are numbers are all the samples when the envelope has no
  NaN.
\<close>

theorem alpha_amplitude_median:
  assumes "alpha_amps_loop L s = Inr s1"
    and "i < n_rows (eeg_epoch_full_df s)"
    and "ch \<in> set eeg_chans"
  shows "\<exists>sig amp col.
      getitem (eeg_epoch_full_df s) ch (int i) = Inr sig
    \<and> amp_by_time L sig 250 (7, 12) = Inr amp
    \<and> DataFrame (alpha_amps s1) =
        Inr \<lparr>df_index = py_range (n_rows (eeg_epoch_full_df s)), df_columns = alpha_amps s1\<rparr>
    \<and> (\<forall>s'. alpha_cell L s = Inr s' \<longrightarrow> df_columns (alpha_med_df s') = alpha_amps s1)
    \<and> map_of (alpha_amps s1) (ch @ ''_(7, 12)_inst_med'') = Some col
    \<and> length col = n_rows (eeg_epoch_full_df s)
    \<and> (numbers_of amp = [] \<longrightarrow> col ! i = NaN)
    \<and> (numbers_of amp \<noteq> [] \<longrightarrow>
         (\<exists>m. col ! i = Fin m \<and> is_median (numbers_of amp) m
             \<and> (\<forall>m'. is_median (numbers_of amp) m' \<longrightarrow> m' = m)))
    \<and> (NaN \<notin> set amp \<longrightarrow> map Fin (numbers_of amp) = amp)"
proof -
  let ?N = "n_rows (eeg_epoch_full_df s)"
  let ?col = "dict_get (alpha_amps s1) (alpha_key ch)"
  note eff = alpha_loop_effect[OF assms(1)]
  from eff assms(2,3) obtain sig amp where
    g: "getitem (eeg_epoch_full_df s) ch (int i) = Inr sig"
       "amp_by_time L sig eeg_fs alpha_range = Inr amp" and
    v: "?col ! i = nanmedian amp" and
    len: "length ?col = ?N"
    by blast
  from eff assms(2) have "map fst (alpha_amps s1) = map alpha_key eeg_chans" by auto
  with assms(3) have "alpha_key ch \<in> set (map fst (alpha_amps s1))" by simp
  from map_of_dict_get[OF this]
  have m: "map_of (alpha_amps s1) (alpha_key ch) = Some ?col" .
  from assms(2) eff have ne: "alpha_amps s1 = [] \<longrightarrow> ?N = 0"
    by (auto simp: eeg_chans_def)
  from DataFrame_equal_lengths[OF alpha_dict_lengths[OF assms(1)] ne]
  have df: "DataFrame (alpha_amps s1) = Inr \<lparr>df_index = py_range ?N, df_columns = alpha_amps s1\<rparr>" .
  have cell: "\<forall>s'. alpha_cell L s = Inr s' \<longrightarrow> df_columns (alpha_med_df s') = alpha_amps s1"
  proof (intro allI impI)
    fix s' assume "alpha_cell L s = Inr s'"
    from alpha_cell_effect[OF this] assms(1) show "df_columns (alpha_med_df s') = alpha_amps s1"
      by auto
  qed
  have a2: "amp_by_time L sig 250 (7, 12) = Inr amp"
    using g(2) by (simp add: eeg_fs_def alpha_range_def)
  have m2: "map_of (alpha_amps s1) (ch @ ''_(7, 12)_inst_med'') = Some ?col"
    using m by (simp add: alpha_key_eq)
  note med = nanmedian_is_median[of amp]
  have v1: "numbers_of amp = [] \<longrightarrow> ?col ! i = NaN"
    using med v by simp
  have v2: "numbers_of amp \<noteq> [] \<longrightarrow>
         (\<exists>m. ?col ! i = Fin m \<and> is_median (numbers_of amp) m
             \<and> (\<forall>m'. is_median (numbers_of amp) m' \<longrightarrow> m' = m))"
    using med v by simp
  have v3: "NaN \<notin> set amp \<longrightarrow> map Fin (numbers_of amp) = amp"
    by (simp add: numbers_of_no_NaN)
  show ?thesis
    by (intro exI[of _ sig] exI[of _ amp] exI[of _ ?col] conjI)
       (rule g(1) a2 df cell m2 len v1 v2 v3)+
qed

text \<open>
  On an envelope with the numbers 1, 10 and 2 between a NaN at each end the feature is
  2, the median, and not 13 / 3, the mean.
\<close>

theorem alpha_amplitude_median_witness:
  "\<exists>s1 col m.
      alpha_amps_loop ex_amp_lib ex_amp_notebook = Inr s1
    \<and> getitem ex_amp_epochs ''C3'' 0 = Inr [Fin 5, Fin 1, Fin 10, Fin 2, Fin 9]
    \<and> amp_by_time ex_amp_lib [Fin 5, Fin 1, Fin 10, Fin 2, Fin 9] 250 (7, 12) =
         Inr [NaN, Fin 1, Fin 10, Fin 2, NaN]
    \<and> numbers_of [NaN, Fin 1, Fin 10, Fin 2, NaN] = [1, 10, 2]
    \<and> map_of (alpha_amps s1) ''C3_(7, 12)_inst_med'' = Some col
    \<and> length col = 1
    \<and> col ! 0 = Fin m
    \<and> is_median [1, 10, 2] m
    \<and> m = 2
    \<and> m \<noteq> sum_list [1, 10, 2] / 3"
proof -
  let ?s1 = "ex_amp_notebook\<lparr>alpha_amps :=
       [(''C3_(7, 12)_inst_med'', [Fin 2]), (''Cz_(7, 12)_inst_med'', [Fin (7 / 2)]),
        (''C4_(7, 12)_inst_med'', [NaN])]\<rparr>"
  have ep: "eeg_epoch_full_df ex_amp_notebook = ex_amp_epochs"
    by (simp add: ex_amp_notebook_def)
  have i: "0 < n_rows (eeg_epoch_full_df ex_amp_notebook)"
    by (simp add: ep ex_amp_epochs_def)
  have ch: "''C3'' \<in> set eeg_chans" by (simp add: eeg_chans_def)
  have g: "getitem ex_amp_epochs ''C3'' 0 = Inr [Fin 5, Fin 1, Fin 10, Fin 2, Fin 9]"
    by (simp add: ex_amp_epochs_def)
  have e: "amp_by_time ex_amp_lib [Fin 5, Fin 1, Fin 10, Fin 2, Fin 9] 250 (7, 12) =
         Inr [NaN, Fin 1, Fin 10, Fin 2, NaN]"
    by (simp add: ex_amp_lib_def)
  have n: "numbers_of [NaN, Fin 1, Fin 10, Fin 2, NaN] = [1, 10, 2]"
    by (simp add: numbers_of_def)
  from alpha_amplitude_median[OF ex_amp_loop i ch] obtain sig amp col where
    a1: "getitem (eeg_epoch_full_df ex_amp_notebook) ''C3'' (int 0) = Inr sig" and
    a2: "amp_by_time ex_amp_lib sig 250 (7, 12) = Inr amp" and
    a3: "map_of (alpha_amps ?s1) (''C3'' @ ''_(7, 12)_inst_med'') = Some col" and
    a4: "length col = n_rows (eeg_epoch_full_df ex_amp_notebook)" and
    a5: "numbers_of amp \<noteq> [] \<longrightarrow>
         (\<exists>m. col ! 0 = Fin m \<and> is_median (numbers_of amp) m
             \<and> (\<forall>m'. is_median (numbers_of amp) m' \<longrightarrow> m' = m))"
    by blast
  from a1 have sig: "sig = [Fin 5, Fin 1, Fin 10, Fin 2, Fin 9]" by (simp add: ep g)
  from a2 have amp: "amp = [NaN, Fin 1, Fin 10, Fin 2, NaN]" by (simp add: sig e)
  from a5 have "\<exists>m. col ! 0 = Fin m \<and> is_median [1, 10, 2] m
             \<and> (\<forall>m'. is_median [1, 10, 2] m' \<longrightarrow> m' = m)"
    unfolding amp n by simp
  then obtain m where
    m: "col ! 0 = Fin m" "is_median [1, 10, 2] m" "\<forall>m'. is_median [1, 10, 2] m' \<longrightarrow> m' = m"
    by (elim exE conjE)
  from m(3)[rule_format, OF ex_is_median(1)] have m2: "m = 2" by simp
  then have m3: "m \<noteq> sum_list [1, 10, 2] / 3" by simp
  from a3 have c: "map_of (alpha_amps ?s1) ''C3_(7, 12)_inst_med'' = Some col" by simp
  from a4 have l: "length col = 1" by (simp add: ep ex_amp_epochs_def)
  show ?thesis
    by (intro exI[of _ ?s1] exI[of _ col] exI[of _ m] conjI)
       (rule ex_amp_loop g e n c l m(1) m(2) m2 m3)+
qed

section \<open>The smoothed PSD helper\<close>



section \<open>The assembled feature table\<close>

text \<open>
  Claim C4, as amended. When the saved table, the amplitude table and the peak-parameter
  table carry the same row index, the assembled table carries that index, so it has as
  many rows as each of them, its columns are the columns of the three tables side by
  side in order, and its column names are the union of theirs. The same holds for the
  first assembly, of the saved table and the amplitude table. The rows are aligned on the
  row labels: the same number of rows is not enough.
\<close>

theorem assemble_same_index:
  "(assemble_cell s = Inr s'
      \<and> df_index (W1_feature_df s) = idx \<and> df_index (alpha_med_df s) = idx
      \<and> df_index (fooof_parameters_df s') = idx
    \<longrightarrow> feature_df s' =
          \<lparr>df_index = idx,
           df_columns = df_columns (W1_feature_df s) @ df_columns (alpha_med_df s)
             @ df_columns (fooof_parameters_df s')\<rparr>
      \<and> df_len (feature_df s') = length idx
      \<and> set (df_names (feature_df s')) =
          set (df_names (W1_feature_df s)) \<union> set (df_names (alpha_med_df s))
            \<union> set (df_names (fooof_parameters_df s')))
   \<and> (alpha_cell L t = Inr t' \<and> df_index (W1_feature_df t) = df_index (alpha_med_df t')
    \<longrightarrow> feature_df t' =
          \<lparr>df_index = df_index (W1_feature_df t),
           df_columns = df_columns (W1_feature_df t) @ df_columns (alpha_med_df t')\<rparr>)"
proof (intro conjI impI)
  assume a: "assemble_cell s = Inr s'
      \<and> df_index (W1_feature_df s) = idx \<and> df_index (alpha_med_df s) = idx
      \<and> df_index (fooof_parameters_df s') = idx"
  with assemble_cell_effect[of s s'] obtain df F where
    c: "pd_concat_axis1 [W1_feature_df s, alpha_med_df s, df] = Inr F" and
    s': "s' = s\<lparr>fooof_parameters_df := df, feature_df := F\<rparr>"
    by blast
  from s' have f: "fooof_parameters_df s' = df" "feature_df s' = F" by simp_all
  from a f have "list_all (\<lambda>d. df_index d = df_index (W1_feature_df s)) [alpha_med_df s, df]"
    by simp
  from pd_concat_same_index[OF this] c a
  have F: "F = \<lparr>df_index = idx,
           df_columns = df_columns (W1_feature_df s) @ df_columns (alpha_med_df s)
             @ df_columns df\<rparr>"
    by simp
  show "feature_df s' =
          \<lparr>df_index = idx,
           df_columns = df_columns (W1_feature_df s) @ df_columns (alpha_med_df s)
             @ df_columns (fooof_parameters_df s')\<rparr>"
    by (simp add: f F)
  show "df_len (feature_df s') = length idx"
    by (simp add: f F df_len_def)
  show "set (df_names (feature_df s')) =
          set (df_names (W1_feature_df s)) \<union> set (df_names (alpha_med_df s))
            \<union> set (df_names (fooof_parameters_df s'))"
    by (simp add: f F df_names_def Un_assoc)
next
  assume b: "alpha_cell L t = Inr t' \<and> df_index (W1_feature_df t) = df_index (alpha_med_df t')"
  with alpha_cell_effect[of L t t'] obtain s1 :: notebook and F where
    c: "pd_concat_axis1 [W1_feature_df t,
                \<lparr>df_index = py_range (n_rows (eeg_epoch_full_df t)),
                 df_columns = alpha_amps s1\<rparr>] = Inr F" and
    t': "t' = t\<lparr>alpha_amps := alpha_amps s1,
                  alpha_med_df := \<lparr>df_index = py_range (n_rows (eeg_epoch_full_df t)),
                                   df_columns = alpha_amps s1\<rparr>,
                  feature_df := F\<rparr>"
    by blast
  from t' have f: "alpha_med_df t' = \<lparr>df_index = py_range (n_rows (eeg_epoch_full_df t)),
                                   df_columns = alpha_amps s1\<rparr>" "feature_df t' = F"
    by simp_all
  from b f have "list_all (\<lambda>d. df_index d = df_index (W1_feature_df t))
      [\<lparr>df_index = py_range (n_rows (eeg_epoch_full_df t)), df_columns = alpha_amps s1\<rparr>]"
    by simp
  from pd_concat_same_index[OF this] c
  show "feature_df t' =
          \<lparr>df_index = df_index (W1_feature_df t),
           df_columns = df_columns (W1_feature_df t) @ df_columns (alpha_med_df t')\<rparr>"
    by (simp add: f)
qed

theorem assemble_same_index_witness:
  "(\<exists>s'. assemble_cell ex_before_assemble = Inr s'
       \<and> df_index (W1_feature_df ex_before_assemble) = [0]
       \<and> df_index (alpha_med_df ex_before_assemble) = [0]
       \<and> df_index (fooof_parameters_df s') = [0]
       \<and> feature_df s' =
           \<lparr>df_index = [0], df_columns = (''y'', [Fin 1]) # ex_alpha_dict @ ex_fooof_dict\<rparr>
       \<and> df_len (feature_df s') = 1)
   \<and> (\<exists>t'. alpha_cell ex_lib (ex_notebook ex_W1) = Inr t'
       \<and> df_index (W1_feature_df (ex_notebook ex_W1)) = df_index (alpha_med_df t')
       \<and> feature_df t' = \<lparr>df_index = [0], df_columns = (''y'', [Fin 1]) # ex_alpha_dict\<rparr>)"
proof -
  let ?s' = "ex_before_assemble\<lparr>fooof_parameters_df := ex_fooof_df,
       feature_df := \<lparr>df_index = [0],
            df_columns = (''y'', [Fin 1]) # ex_alpha_dict @ ex_fooof_dict\<rparr>\<rparr>"
  let ?t' = "(ex_notebook ex_W1)\<lparr>alpha_amps := ex_alpha_dict, alpha_med_df := ex_alpha_med_df,
        feature_df := \<lparr>df_index = [0], df_columns = (''y'', [Fin 1]) # ex_alpha_dict\<rparr>\<rparr>"
  have h1: "df_index (W1_feature_df ex_before_assemble) = [0]"
    "df_index (alpha_med_df ex_before_assemble) = [0]"
    "df_index (fooof_parameters_df ?s') = [0]"
    by (simp_all add: ex_before_assemble_def ex_W1_def ex_alpha_med_df_def ex_fooof_df_def)
  have run2: "alpha_cell ex_lib (ex_notebook ex_W1) = Inr ?t'"
    by (simp add: ex_alpha_cell ex_concat_W1)
  have h2: "df_index (W1_feature_df (ex_notebook ex_W1)) = df_index (alpha_med_df ?t')"
    by (simp add: ex_notebook_def ex_W1_def ex_alpha_med_df_def)
  note inst = assemble_same_index[of ex_before_assemble ?s' "[0]" ex_lib "ex_notebook ex_W1" ?t']
  from inst[THEN conjunct1, rule_format, OF conjI[OF ex_assemble conjI[OF h1(1) conjI[OF h1(2) h1(3)]]]]
  have a: "feature_df ?s' =
           \<lparr>df_index = [0], df_columns = (''y'', [Fin 1]) # ex_alpha_dict @ ex_fooof_dict\<rparr>
       \<and> df_len (feature_df ?s') = 1"
    by (simp add: ex_before_assemble_def ex_W1_def ex_alpha_med_df_def ex_fooof_df_def)
  from inst[THEN conjunct2, rule_format, OF conjI[OF run2 h2]]
  have b: "feature_df ?t' = \<lparr>df_index = [0], df_columns = (''y'', [Fin 1]) # ex_alpha_dict\<rparr>"
    by (simp add: ex_notebook_def ex_W1_def ex_alpha_med_df_def)
  from ex_assemble h1 a have A: "\<exists>s'. assemble_cell ex_before_assemble = Inr s'
       \<and> df_index (W1_feature_df ex_before_assemble) = [0]
       \<and> df_index (alpha_med_df ex_before_assemble) = [0]
       \<and> df_index (fooof_parameters_df s') = [0]
       \<and> feature_df s' =
           \<lparr>df_index = [0], df_columns = (''y'', [Fin 1]) # ex_alpha_dict @ ex_fooof_dict\<rparr>
       \<and> df_len (feature_df s') = 1"
    by blast
  from run2 h2 b have B: "\<exists>t'. alpha_cell ex_lib (ex_notebook ex_W1) = Inr t'
       \<and> df_index (W1_feature_df (ex_notebook ex_W1)) = df_index (alpha_med_df t')
       \<and> feature_df t' = \<lparr>df_index = [0], df_columns = (''y'', [Fin 1]) # ex_alpha_dict\<rparr>"
    by blast
  from A B show ?thesis by blast
qed

text \<open>
  The claim as stated fails: a saved table of one row with the label 1 has the row count
  of the two computed tables, whose one row has the label 0, and the assembled table has
  two rows.
\<close>

theorem assemble_same_row_count_counterexample:
  "(case extract_features ex_lib (ex_notebook ex_W1_label1) of
      Inl e \<Rightarrow> False
    | Inr s' \<Rightarrow>
        df_len (W1_feature_df s') = 1 \<and> df_len (alpha_med_df s') = 1
      \<and> df_len (fooof_parameters_df s') = 1 \<and> df_len (feature_df s') = 2)"
  unfolding ex_extract_features[OF ex_concat_label1]
  by (simp add: df_len_def ex_W1_label1_def ex_alpha_med_df_def ex_fooof_df_def)

text \<open>
  Claim C6, as amended. When the feature-extraction cells return, each of the twelve
  columns the two loops make holds one value per trial; their names are pairwise
  different and each is made of the channel and the kind of feature; the names of the
  assembled table are those of the saved table followed by the twelve. The assembled
  table has as many rows as the epoch table when the saved table carries the index
  0..N-1, and its names are pairwise different when those of the saved table are and none
  of them is one of the twelve.
\<close>

theorem feature_columns_one_per_trial:
  assumes "extract_features L s = Inr s'"
  shows "new_feature_names =
     [''C3_(7, 12)_inst_med'', ''Cz_(7, 12)_inst_med'', ''C4_(7, 12)_inst_med'',
      ''C3_alpha_central_freq'', ''C3_alpha_power'', ''C3_alpha_band_width'',
      ''Cz_alpha_central_freq'', ''Cz_alpha_power'', ''Cz_alpha_band_width'',
      ''C4_alpha_central_freq'', ''C4_alpha_power'', ''C4_alpha_band_width'']
    \<and> distinct new_feature_names
    \<and> df_names (alpha_med_df s') @ df_names (fooof_parameters_df s') = new_feature_names
    \<and> (\<forall>kv\<in>set (df_columns (alpha_med_df s') @ df_columns (fooof_parameters_df s')).
          length (snd kv) = n_rows (eeg_epoch_full_df s))
    \<and> df_len (alpha_med_df s') = n_rows (eeg_epoch_full_df s)
    \<and> df_len (fooof_parameters_df s') = n_rows (eeg_epoch_full_df s)
    \<and> df_names (feature_df s') = df_names (W1_feature_df s) @ new_feature_names
    \<and> (df_index (W1_feature_df s) = py_range (n_rows (eeg_epoch_full_df s)) \<longrightarrow>
          df_len (feature_df s') = n_rows (eeg_epoch_full_df s))
    \<and> (distinct (df_names (W1_feature_df s))
          \<and> set (df_names (W1_feature_df s)) \<inter> set new_feature_names = {} \<longrightarrow>
          distinct (df_names (feature_df s')))"
proof -
  let ?N = "n_rows (eeg_epoch_full_df s)"
  from extract_features_steps[OF assms] obtain s1 s2 where
    c1: "alpha_cell L s = Inr s1" and c2: "fooof_cell L s1 = Inr s2" and
    c3: "assemble_cell s2 = Inr s'"
    by blast
  from alpha_cell_effect[OF c1] obtain l1 :: notebook and F1 where
    loop: "alpha_amps_loop L s = Inr l1" and
    s1: "s1 = s\<lparr>alpha_amps := alpha_amps l1,
                  alpha_med_df := \<lparr>df_index = py_range ?N, df_columns = alpha_amps l1\<rparr>,
                  feature_df := F1\<rparr>"
    by blast
  have ep1: "eeg_epoch_full_df s1 = eeg_epoch_full_df s" by (simp add: s1)
  note f2 = fooof_cell_effect[OF c2, unfolded ep1]
  from f2 have frame2: "s2 = s1\<lparr>num_with_alpha := num_with_alpha s2,
      num_without_alpha := num_without_alpha s2, fooof_parameters := fooof_parameters s2\<rparr>"
    by blast
  note fr = fooof_frame[OF frame2]
  from assemble_cell_effect[OF c3] obtain df F where
    d: "DataFrame (fooof_parameters s2) = Inr df" and
    c: "pd_concat_axis1 [W1_feature_df s2, alpha_med_df s2, df] = Inr F" and
    nz: "num_with_alpha s2 + num_without_alpha s2 \<noteq> 0" and
    s': "s' = s2\<lparr>fooof_parameters_df := df, feature_df := F\<rparr>"
    by blast
  from f2 nz have N: "?N \<noteq> 0" by auto
  from fooof_DataFrame[OF c2, unfolded ep1] d
  have df: "df = \<lparr>df_index = py_range ?N, df_columns = fooof_parameters s2\<rparr>" by simp
  have A: "alpha_med_df s' = \<lparr>df_index = py_range ?N, df_columns = alpha_amps l1\<rparr>"
    by (simp add: s' fr s1)
  have Fd: "fooof_parameters_df s' = \<lparr>df_index = py_range ?N, df_columns = fooof_parameters s2\<rparr>"
    by (simp add: s' df)
  have W: "W1_feature_df s2 = W1_feature_df s" by (simp add: fr s1)
  have feat: "feature_df s' = F" by (simp add: s')
  from alpha_loop_effect[OF loop] N
  have ak: "map fst (alpha_amps l1) = map alpha_key eeg_chans" by simp
  from f2 N have fk: "map fst (fooof_parameters s2) = fooof_keys" by simp
  have names: "df_names (alpha_med_df s') @ df_names (fooof_parameters_df s') = new_feature_names"
    by (simp add: A Fd df_names_def ak fk new_feature_names_def)
  have lens: "\<forall>kv\<in>set (df_columns (alpha_med_df s') @ df_columns (fooof_parameters_df s')).
          length (snd kv) = ?N"
    using alpha_dict_lengths[OF loop] fooof_dict_lengths[OF c2, unfolded ep1]
    by (auto simp: A Fd)
  have rows: "df_len (alpha_med_df s') = ?N" "df_len (fooof_parameters_df s') = ?N"
    by (simp_all add: A Fd df_len_def py_range_def)
  from pd_concat_names[OF c]
  have fn: "df_names (feature_df s') = df_names (W1_feature_df s) @ new_feature_names"
    using names by (simp add: feat W fr s1 df A Fd df_names_def)
  have same: "df_index (W1_feature_df s) = py_range ?N \<longrightarrow> df_len (feature_df s') = ?N"
  proof
    assume i: "df_index (W1_feature_df s) = py_range ?N"
    then have "list_all (\<lambda>d. df_index d = df_index (W1_feature_df s2)) [alpha_med_df s2, df]"
      by (simp add: W fr s1 df)
    from pd_concat_same_index[OF this] c have "df_index F = py_range ?N"
      by (auto simp: W i)
    then show "df_len (feature_df s') = ?N" by (simp add: feat df_len_def py_range_def)
  qed
  have dist: "distinct (df_names (W1_feature_df s))
          \<and> set (df_names (W1_feature_df s)) \<inter> set new_feature_names = {} \<longrightarrow>
          distinct (df_names (feature_df s'))"
    using distinct_new_feature_names by (simp add: fn)
  show ?thesis
    by (intro conjI)
       (rule new_feature_names_eq distinct_new_feature_names names lens rows fn same dist)+
qed

theorem feature_columns_one_per_trial_witness:
  "\<exists>s'. extract_features ex_lib (ex_notebook ex_W1) = Inr s'
     \<and> df_index (W1_feature_df (ex_notebook ex_W1)) = py_range 1
     \<and> distinct (df_names (W1_feature_df (ex_notebook ex_W1)))
     \<and> set (df_names (W1_feature_df (ex_notebook ex_W1))) \<inter> set new_feature_names = {}
     \<and> df_names (feature_df s') = ''y'' # new_feature_names
     \<and> df_len (feature_df s') = 1
     \<and> distinct (df_names (feature_df s'))
     \<and> list_all (\<lambda>kv. length (snd kv) = 1)
          (df_columns (alpha_med_df s') @ df_columns (fooof_parameters_df s'))"
proof -
  have n: "n_rows (eeg_epoch_full_df (ex_notebook ex_W1)) = 1"
    by (simp add: ex_notebook_def ex_epochs_def)
  have h1: "df_index (W1_feature_df (ex_notebook ex_W1)) = py_range 1"
    by (simp add: ex_notebook_def ex_W1_def py_range_def)
  have h2: "distinct (df_names (W1_feature_df (ex_notebook ex_W1)))"
    by (simp add: ex_notebook_def ex_W1_def df_names_def)
  have h3: "set (df_names (W1_feature_df (ex_notebook ex_W1))) \<inter> set new_feature_names = {}"
    by (simp add: ex_notebook_def ex_W1_def df_names_def new_feature_names_eq)
  have w: "df_names (W1_feature_df (ex_notebook ex_W1)) = [''y'']"
    by (simp add: ex_notebook_def ex_W1_def df_names_def)
  let ?S = "\<lparr>eeg_epoch_full_df = ex_epochs, W1_feature_df = ex_W1,
          alpha_amps = ex_alpha_dict, alpha_med_df = ex_alpha_med_df,
          feature_df = \<lparr>df_index = [0],
            df_columns = (''y'', [Fin 1]) # ex_alpha_dict @ ex_fooof_dict\<rparr>,
          num_with_alpha = 1, num_without_alpha = 2, fooof_parameters = ex_fooof_dict,
          fooof_parameters_df = ex_fooof_df\<rparr>"
  note inst = feature_columns_one_per_trial[OF ex_extract_W1, unfolded n w]
  from inst have fn: "df_names (feature_df ?S) = [''y''] @ new_feature_names"
    by (elim conjE) assumption
  from inst have "df_index (W1_feature_df (ex_notebook ex_W1)) = py_range 1 \<longrightarrow>
          df_len (feature_df ?S) = 1"
    by (elim conjE) assumption
  with h1 have rows: "df_len (feature_df ?S) = 1" by (rule rev_mp)
  from inst have "distinct [''y'']
          \<and> set [''y''] \<inter> set new_feature_names = {} \<longrightarrow>
          distinct (df_names (feature_df ?S))"
    by (elim conjE) assumption
  from mp[OF this conjI[OF h2[unfolded w] h3[unfolded w]]]
  have dist: "distinct (df_names (feature_df ?S))" .
  from inst have "\<forall>kv\<in>set (df_columns (alpha_med_df ?S) @ df_columns (fooof_parameters_df ?S)).
          length (snd kv) = 1"
    by (elim conjE) assumption
  then have lens: "list_all (\<lambda>kv. length (snd kv) = 1)
          (df_columns (alpha_med_df ?S) @ df_columns (fooof_parameters_df ?S))"
    unfolding list_all_iff .
  from fn have fn': "df_names (feature_df ?S) = ''y'' # new_feature_names" by simp
  show ?thesis
    by (rule exI[of _ ?S], intro conjI) (rule ex_extract_W1 h1 h2 h3 fn' rows dist lens)+
qed

text \<open>
  The claim as stated fails: with an epoch table of one trial and a saved table of two
  rows that already has a column \<^verbatim>\<open>C3_alpha_power\<close>, the assembled table has two rows and
  two columns of that name.
\<close>

theorem feature_table_invariant_counterexample:
  "(case extract_features ex_lib (ex_notebook ex_W1_clash) of
      Inl e \<Rightarrow> False
    | Inr s' \<Rightarrow>
        n_rows (eeg_epoch_full_df s') = 1 \<and> df_len (feature_df s') = 2
      \<and> \<not> distinct (df_names (feature_df s')))"
  unfolding ex_extract_features[OF ex_concat_clash]
  by (simp add: df_len_def df_names_def ex_epochs_def ex_alpha_dict_def ex_fooof_dict_def)

section \<open>The epoch table is only read\<close>

text \<open>
  Claim C8. The alpha-amplitude cell, the peak-parameter cell and the three
  feature-extraction cells in sequence leave \<^verbatim>\<open>eeg_epoch_full_df\<close> as it was after loading.
\<close>

theorem epoch_table_read_only:
  "(alpha_cell L s = Inr s1 \<longrightarrow> eeg_epoch_full_df s1 = eeg_epoch_full_df s)
   \<and> (fooof_cell L s = Inr s2 \<longrightarrow> eeg_epoch_full_df s2 = eeg_epoch_full_df s)
   \<and> (extract_features L s = Inr s3 \<longrightarrow> eeg_epoch_full_df s3 = eeg_epoch_full_df s)"
proof (intro conjI impI)
  assume "extract_features L s = Inr s3"
  from extract_features_steps[OF this] obtain t1 t2 where
    "alpha_cell L s = Inr t1" "fooof_cell L t1 = Inr t2" "assemble_cell t2 = Inr s3"
    by blast
  then show "eeg_epoch_full_df s3 = eeg_epoch_full_df s"
    by (simp add: alpha_cell_epochs fooof_cell_epochs assemble_cell_epochs)
qed (simp_all add: alpha_cell_epochs fooof_cell_epochs)

theorem epoch_table_read_only_witness:
  "(\<exists>s1. alpha_cell ex_lib (ex_notebook ex_W1) = Inr s1 \<and> eeg_epoch_full_df s1 = ex_epochs)
   \<and> (\<exists>s2. fooof_cell ex_lib (ex_notebook ex_W1) = Inr s2 \<and> eeg_epoch_full_df s2 = ex_epochs)
   \<and> (\<exists>s3. extract_features ex_lib (ex_notebook ex_W1) = Inr s3
          \<and> eeg_epoch_full_df s3 = ex_epochs)"
proof -
  have ep: "eeg_epoch_full_df (ex_notebook ex_W1) = ex_epochs" by (simp add: ex_notebook_def)
  have 1: "alpha_cell ex_lib (ex_notebook ex_W1) =
      Inr ((ex_notebook ex_W1)\<lparr>alpha_amps := ex_alpha_dict, alpha_med_df := ex_alpha_med_df,
        feature_df := \<lparr>df_index = [0], df_columns = (''y'', [Fin 1]) # ex_alpha_dict\<rparr>\<rparr>)"
    by (simp add: ex_alpha_cell ex_concat_W1)
  note 2 = ex_fooof_cell[OF ep]
  note 3 = ex_extract_features[OF ex_concat_W1]
  note inst = epoch_table_read_only[of ex_lib "ex_notebook ex_W1"]
  from inst[THEN conjunct1, rule_format, OF 1] 1
  have a: "\<exists>s1. alpha_cell ex_lib (ex_notebook ex_W1) = Inr s1 \<and> eeg_epoch_full_df s1 = ex_epochs"
    by (simp add: ep)
  from inst[THEN conjunct2, THEN conjunct1, rule_format, OF 2] 2
  have b: "\<exists>s2. fooof_cell ex_lib (ex_notebook ex_W1) = Inr s2 \<and> eeg_epoch_full_df s2 = ex_epochs"
    by (simp add: ep)
  from inst[THEN conjunct2, THEN conjunct2, rule_format, OF 3] 3
  have c: "\<exists>s3. extract_features ex_lib (ex_notebook ex_W1) = Inr s3
          \<and> eeg_epoch_full_df s3 = ex_epochs"
    by (simp add: ep)
  from a b c show ?thesis by blast
qed

end
